theory Spec2Isabelle
  imports Complex_Main
begin

section \<open>Python values\<close>

text \<open>
  The scraper works on whatever \<^verbatim>\<open>json.loads\<close> returns: \<^verbatim>\<open>None\<close>, booleans,
  integers, floats, strings, lists and dictionaries. A dictionary is kept as an
  association list in insertion order (a Python \<^verbatim>\<open>dict\<close> has distinct keys; a lookup
  reads the first pair of a key). A Python \<^verbatim>\<open>float\<close> is represented by the real number
  it denotes: rounding, NaN and the infinities are outside this model.
\<close>

datatype json =
    JNull
  | JBool bool
  | JInt int
  | JFloat real
  | JStr string
  | JList "json list"
  | JDict "(string \<times> json) list"

text \<open>The exceptions the modelled code can raise.\<close>

datatype py_error =
    AttributeError
  | TypeError
  | KeyError
  | ValueError string
  | ZillowClientError string

text \<open>Sequencing of computations that may raise: the first exception wins.\<close>

definition bind :: "py_error + 'a \<Rightarrow> ('a \<Rightarrow> py_error + 'b) \<Rightarrow> py_error + 'b" where
  "bind m f = (case m of Inl e \<Rightarrow> Inl e | Inr v \<Rightarrow> f v)"


section \<open>Python primitives\<close>

text \<open>Truth value of a Python object, as \<^verbatim>\<open>or\<close>, \<^verbatim>\<open>if\<close> and \<^verbatim>\<open>bool()\<close> read it.\<close>

fun truthy :: "json \<Rightarrow> bool" where
  "truthy JNull = False"
| "truthy (JBool b) = b"
| "truthy (JInt i) = (i \<noteq> 0)"
| "truthy (JFloat r) = (r \<noteq> 0)"
| "truthy (JStr s) = (s \<noteq> [])"
| "truthy (JList xs) = (xs \<noteq> [])"
| "truthy (JDict kvs) = (kvs \<noteq> [])"

text \<open>\<^verbatim>\<open>a or b\<close>: the left operand when it is truthy, otherwise the right one, which
  is evaluated only then.\<close>

definition or_else :: "py_error + json \<Rightarrow> py_error + json \<Rightarrow> py_error + json" where
  "or_else m n = bind m (\<lambda>a. if truthy a then Inr a else n)"

text \<open>\<^verbatim>\<open>x.get(k, d)\<close> and \<^verbatim>\<open>x.get(k)\<close>: only a dictionary has the method.\<close>

definition dict_get_default :: "json \<Rightarrow> string \<Rightarrow> json \<Rightarrow> py_error + json" where
  "dict_get_default x k d =
     (case x of
        JDict kvs \<Rightarrow> Inr (case map_of kvs k of None \<Rightarrow> d | Some v \<Rightarrow> v)
      | _ \<Rightarrow> Inl AttributeError)"

definition dict_get :: "json \<Rightarrow> string \<Rightarrow> py_error + json" where
  "dict_get x k = dict_get_default x k JNull"

text \<open>\<^verbatim>\<open>x[k]\<close> with a string key: a missing key is a \<^verbatim>\<open>KeyError\<close>, and any object that
  is not a dictionary refuses a string subscript with a \<^verbatim>\<open>TypeError\<close>.\<close>

definition getitem :: "json \<Rightarrow> string \<Rightarrow> py_error + json" where
  "getitem x k =
     (case x of
        JDict kvs \<Rightarrow> (case map_of kvs k of None \<Rightarrow> Inl KeyError | Some v \<Rightarrow> Inr v)
      | _ \<Rightarrow> Inl TypeError)"

text \<open>\<^verbatim>\<open>needle in haystack\<close> on strings: the needle occurs as a contiguous substring.\<close>

fun substring_in :: "string \<Rightarrow> string \<Rightarrow> bool" where
  "substring_in needle [] = (needle = [])"
| "substring_in needle (c # haystack) =
     (take (length needle) (c # haystack) = needle \<or> substring_in needle haystack)"

text \<open>\<^verbatim>\<open>k in x\<close> for a string \<open>k\<close>: key membership in a dictionary, element
  membership in a list, substring test in a string; other objects are not containers.\<close>

definition py_in :: "string \<Rightarrow> json \<Rightarrow> py_error + bool" where
  "py_in k x =
     (case x of
        JDict kvs \<Rightarrow> Inr (k \<in> set (map fst kvs))
      | JList xs \<Rightarrow> Inr (JStr k \<in> set xs)
      | JStr s \<Rightarrow> Inr (substring_in k s)
      | _ \<Rightarrow> Inl TypeError)"

text \<open>The objects a \<^verbatim>\<open>for\<close> loop draws from \<open>x\<close>: the elements of a list, the keys of a
  dictionary, the one-character strings of a string; other objects are not iterable.\<close>

definition py_iter :: "json \<Rightarrow> py_error + json list" where
  "py_iter x =
     (case x of
        JList xs \<Rightarrow> Inr xs
      | JDict kvs \<Rightarrow> Inr (map (\<lambda>kv. JStr (fst kv)) kvs)
      | JStr s \<Rightarrow> Inr (map (\<lambda>c. JStr [c]) s)
      | _ \<Rightarrow> Inl TypeError)"

text \<open>\<^verbatim>\<open>sep.join(parts)\<close> on strings.\<close>

fun join :: "string \<Rightarrow> string list \<Rightarrow> string" where
  "join sep [] = []"
| "join sep [x] = x"
| "join sep (x # y # ys) = x @ sep @ join sep (y # ys)"

text \<open>The strings among a list of objects: \<^verbatim>\<open>[p for p in xs if isinstance(p, str)]\<close>.\<close>

fun strs_of :: "json list \<Rightarrow> string list" where
  "strs_of [] = []"
| "strs_of (JStr s # xs) = s # strs_of xs"
| "strs_of (_ # xs) = strs_of xs"

text \<open>\<^verbatim>\<open>sep.join(parts)\<close> on arbitrary objects: an item that is not a string is a
  \<^verbatim>\<open>TypeError\<close>.\<close>

definition str_join :: "string \<Rightarrow> json list \<Rightarrow> py_error + string" where
  "str_join sep parts =
     (if length (strs_of parts) = length parts then Inr (join sep (strs_of parts))
      else Inl TypeError)"

text \<open>Decimal digits of a natural number and \<^verbatim>\<open>str\<close> of an integer.\<close>

fun digits_of :: "nat \<Rightarrow> string" where
  "digits_of n =
     (if n < 10 then [''0123456789'' ! n]
      else digits_of (n div 10) @ [''0123456789'' ! (n mod 10)])"

declare digits_of.simps [simp del]

definition str_int :: "int \<Rightarrow> string" where
  "str_int i = (if i < 0 then CHR ''-'' # digits_of (nat (- i)) else digits_of (nat i))"

text \<open>
  Two built-ins are taken as parameters of the model: \<^verbatim>\<open>str.lower\<close> (Unicode case
  mapping) and the printed form of floats, lists and dictionaries (\<^verbatim>\<open>repr\<close>).
\<close>

record py_builtins =
  str_lower :: "string \<Rightarrow> string"
  repr_of :: "json \<Rightarrow> string"

text \<open>\<^verbatim>\<open>str(v)\<close>.\<close>

definition py_str :: "py_builtins \<Rightarrow> json \<Rightarrow> string" where
  "py_str B v =
     (case v of
        JStr s \<Rightarrow> s
      | JInt i \<Rightarrow> str_int i
      | JBool b \<Rightarrow> (if b then ''True'' else ''False'')
      | JNull \<Rightarrow> ''None''
      | _ \<Rightarrow> repr_of B v)"

text \<open>An instance for evaluating examples: ASCII letters are lower-cased, and the
  examples print no float, list or dictionary.\<close>

definition ascii_lower :: "string \<Rightarrow> string" where
  "ascii_lower s =
     map (\<lambda>c. case map_of (zip ''ABCDEFGHIJKLMNOPQRSTUVWXYZ'' ''abcdefghijklmnopqrstuvwxyz'') c of
                 None \<Rightarrow> c | Some d \<Rightarrow> d) s"

definition ascii_builtins :: py_builtins where
  "ascii_builtins = \<lparr>str_lower = ascii_lower, repr_of = (\<lambda>v. [])\<rparr>"

text \<open>Reading a key of a dictionary where nothing can fail: \<^verbatim>\<open>None\<close> for a missing key
  and for an object that is not a dictionary. It names the candidate source locations of
  a field in the statements below.\<close>

fun item :: "json \<Rightarrow> string \<Rightarrow> json" where
  "item (JDict kvs) k = (case map_of kvs k of None \<Rightarrow> JNull | Some v \<Rightarrow> v)"
| "item _ k = JNull"

section \<open>Geo utilities (\<^verbatim>\<open>extractors/utils_geo.py\<close>)\<close>

text \<open>\<^verbatim>\<open>math.radians\<close>, \<^verbatim>\<open>math.sqrt\<close> (which raises on a negative argument) and
  \<^verbatim>\<open>math.atan2\<close> of the standard library.\<close>

definition radians :: "real \<Rightarrow> real" where
  "radians x = x * (pi / 180)"

definition py_sqrt :: "real \<Rightarrow> py_error + real" where
  "py_sqrt x = (if x < 0 then Inl (ValueError ''math domain error'') else Inr (sqrt x))"

definition atan2 :: "real \<Rightarrow> real \<Rightarrow> real" where
  "atan2 y x =
     (if 0 < x then arctan (y / x)
      else if x < 0 \<and> 0 \<le> y then arctan (y / x) + pi
      else if x < 0 \<and> y < 0 then arctan (y / x) - pi
      else if 0 < y then pi / 2
      else if y < 0 then - (pi / 2)
      else 0)"

definition haversine_distance_km :: "real \<Rightarrow> real \<Rightarrow> real \<Rightarrow> real \<Rightarrow> py_error + real" where
  "haversine_distance_km lat1 lon1 lat2 lon2 =
     (let radius_km = 6371;
          phi1 = radians lat1;
          phi2 = radians lat2;
          d_phi = radians (lat2 - lat1);
          d_lambda = radians (lon2 - lon1);
          a = (sin (d_phi / 2)) ^ 2 + cos phi1 * cos phi2 * (sin (d_lambda / 2)) ^ 2
      in bind (py_sqrt a) (\<lambda>sa.
         bind (py_sqrt (1 - a)) (\<lambda>sb.
         Inr (radius_km * (2 * atan2 sa sb)))))"

text \<open>The loop of \<^verbatim>\<open>compute_centroid\<close>: two running sums and a counter.\<close>

fun centroid_loop :: "(real \<times> real) list \<Rightarrow> real \<Rightarrow> real \<Rightarrow> nat \<Rightarrow> real \<times> real \<times> nat" where
  "centroid_loop [] total_lat total_lon count = (total_lat, total_lon, count)"
| "centroid_loop ((lat, lon) # coords) total_lat total_lon count =
     centroid_loop coords (total_lat + lat) (total_lon + lon) (count + 1)"

definition compute_centroid :: "(real \<times> real) list \<Rightarrow> py_error + (real \<times> real)" where
  "compute_centroid coords =
     (case centroid_loop coords 0 0 0 of
        (total_lat, total_lon, count) \<Rightarrow>
          if count = 0
          then Inl (ValueError ''compute_centroid() requires at least one coordinate'')
          else Inr (total_lat / real count, total_lon / real count))"

section \<open>Record extractor (\<^verbatim>\<open>extractors/zillow_parser.py\<close>)\<close>

text \<open>The dataclass \<^verbatim>\<open>PropertyListing\<close>. Its annotations are not enforced at run time,
  so every field holds a Python object.\<close>

record PropertyListing =
  zpid :: json
  providerListingId :: json
  statusType :: json
  statusText :: json
  imageSource :: json
  detailUrl :: json
  address :: json
  addressStreet :: json
  addressCity :: json
  addressState :: json
  addressZipcode :: json
  latitude :: json
  longitude :: json
  buildingName :: json
  contactPhoneNumber :: json
  minPrice :: json
  maxPrice :: json
  unitTypes :: json
  totalUnits :: json
  photoUrls :: json
  isFeaturedListing :: json
  badgeText :: json

text \<open>\<^verbatim>\<open>to_dict\<close>: the fields in declaration order, with \<^verbatim>\<open>photoUrls or []\<close>.\<close>

definition to_dict :: "PropertyListing \<Rightarrow> json" where
  "to_dict l = JDict
     [(''zpid'', zpid l),
      (''providerListingId'', providerListingId l),
      (''statusType'', statusType l),
      (''statusText'', statusText l),
      (''imageSource'', imageSource l),
      (''detailUrl'', detailUrl l),
      (''address'', address l),
      (''addressStreet'', addressStreet l),
      (''addressCity'', addressCity l),
      (''addressState'', addressState l),
      (''addressZipcode'', addressZipcode l),
      (''latitude'', latitude l),
      (''longitude'', longitude l),
      (''buildingName'', buildingName l),
      (''contactPhoneNumber'', contactPhoneNumber l),
      (''minPrice'', minPrice l),
      (''maxPrice'', maxPrice l),
      (''unitTypes'', unitTypes l),
      (''totalUnits'', totalUnits l),
      (''photoUrls'', if truthy (photoUrls l) then photoUrls l else JList []),
      (''isFeaturedListing'', isFeaturedListing l),
      (''badgeText'', badgeText l)]"

text \<open>\<^verbatim>\<open>_format_address\<close>.\<close>

definition format_address :: "json \<Rightarrow> py_error + json" where
  "format_address raw =
     bind (or_else (dict_get raw ''address'') (Inr (JDict []))) (\<lambda>addr.
     bind (or_else (dict_get addr ''streetAddress'') (dict_get raw ''addressStreet'')) (\<lambda>street.
     bind (or_else (dict_get addr ''city'') (dict_get raw ''addressCity'')) (\<lambda>city.
     bind (or_else (dict_get addr ''state'') (dict_get raw ''addressState'')) (\<lambda>state.
     bind (or_else (dict_get addr ''zipcode'') (dict_get raw ''addressZipcode'')) (\<lambda>zipcode.
     let address_parts = filter truthy [street, city, state, zipcode] in
     bind (if address_parts \<noteq> []
           then bind (str_join '', '' address_parts) (\<lambda>s. Inr (JStr s))
           else Inr JNull) (\<lambda>full_address.
     Inr (JDict
       [(''address'', full_address),
        (''addressStreet'', street),
        (''addressCity'', city),
        (''addressState'', state),
        (''addressZipcode'', zipcode)])))))))"

text \<open>The loop over \<^verbatim>\<open>hdp["photos"]\<close>: the \<^verbatim>\<open>url\<close> of every photo object, kept when it
  is a string.\<close>

fun photo_urls :: "json list \<Rightarrow> py_error + string list" where
  "photo_urls [] = Inr []"
| "photo_urls (p # ps) =
     bind (dict_get p ''url'') (\<lambda>url.
     bind (photo_urls ps) (\<lambda>urls.
     Inr (case url of JStr s \<Rightarrow> s # urls | _ \<Rightarrow> urls)))"

text \<open>The de-duplication loop: \<open>seen\<close> is the set of URLs met so far, \<open>unique\<close> the
  list built so far.\<close>

fun unique_loop :: "string list \<Rightarrow> string set \<Rightarrow> string list \<Rightarrow> string list" where
  "unique_loop [] seen unique = unique"
| "unique_loop (url # photos) seen unique =
     (if url \<notin> seen then unique_loop photos (insert url seen) (unique @ [url])
      else unique_loop photos seen unique)"

text \<open>\<^verbatim>\<open>isinstance(x, list)\<close> guarding the use of the list's elements.\<close>

definition list_items :: "json \<Rightarrow> json list option" where
  "list_items x = (case x of JList xs \<Rightarrow> Some xs | _ \<Rightarrow> None)"

text \<open>\<^verbatim>\<open>_extract_photos\<close>, in the three steps that fill \<open>photos\<close> and the
  de-duplication: the top-level list, the lists of the home info (used only when the home
  info is a dictionary), the top-level image source put in front.\<close>

definition top_level_photos :: "json \<Rightarrow> py_error + string list" where
  "top_level_photos raw =
     bind (py_in ''photoUrls'' raw) (\<lambda>has_photo_urls.
     if has_photo_urls
     then bind (getitem raw ''photoUrls'') (\<lambda>v.
            Inr (case list_items v of Some xs \<Rightarrow> strs_of xs | None \<Rightarrow> []))
     else Inr [])"

definition home_info_photos :: "json \<Rightarrow> string list \<Rightarrow> py_error + string list" where
  "home_info_photos hdp photos =
     (case hdp of
        JDict kvs \<Rightarrow>
          bind (dict_get hdp ''photoUrls'') (\<lambda>v.
          let photos' = photos @ (case list_items v of Some xs \<Rightarrow> strs_of xs | None \<Rightarrow> []) in
          bind (dict_get hdp ''photos'') (\<lambda>w.
          case list_items w of
            Some ps \<Rightarrow> bind (photo_urls ps) (\<lambda>urls. Inr (photos' @ urls))
          | None \<Rightarrow> Inr photos'))
      | _ \<Rightarrow> Inr photos)"

definition extract_photos :: "json \<Rightarrow> py_error + string list" where
  "extract_photos raw =
     bind (top_level_photos raw) (\<lambda>photos1.
     bind (bind (dict_get_default raw ''hdpData'' (JDict []))
             (\<lambda>h. dict_get_default h ''homeInfo'' (JDict []))) (\<lambda>hdp.
     bind (home_info_photos hdp photos1) (\<lambda>photos2.
     bind (dict_get raw ''imgSrc'') (\<lambda>img_src.
     let photos = (case img_src of JStr s \<Rightarrow> s # photos2 | _ \<Rightarrow> photos2) in
     Inr (unique_loop photos {} [])))))"

text \<open>The body of the loop of \<^verbatim>\<open>parse_search_results\<close>: one raw listing object to one
  normalized record. The keyword arguments are evaluated in the order they are written.\<close>

definition parse_listing :: "py_builtins \<Rightarrow> json \<Rightarrow> py_error + json" where
  "parse_listing B raw =
     bind (or_else (dict_get raw ''latLong'') (Inr (JDict []))) (\<lambda>lat_long.
     bind (bind (dict_get_default raw ''hdpData'' (JDict []))
             (\<lambda>h. dict_get_default h ''homeInfo'' (JDict []))) (\<lambda>hdp.
     bind (format_address raw) (\<lambda>address_info.
     bind (or_else (dict_get raw ''zpid'') (or_else (dict_get hdp ''zpid'') (Inr (JStr [])))) (\<lambda>a_zpid.
     bind (or_else (dict_get raw ''providerListingId'') (dict_get hdp ''providerListingId'')) (\<lambda>a_provider.
     bind (or_else (dict_get raw ''statusType'') (dict_get hdp ''homeStatus'')) (\<lambda>a_status_type.
     bind (or_else (dict_get raw ''statusText'') (dict_get raw ''statusType'')) (\<lambda>a_status_text.
     bind (dict_get raw ''imgSrc'') (\<lambda>a_image.
     bind (or_else (dict_get raw ''detailUrl'')
             (or_else (dict_get raw ''detailUrlPath'') (dict_get hdp ''detailUrl''))) (\<lambda>a_detail.
     bind (or_else (dict_get lat_long ''latitude'') (dict_get hdp ''latitude'')) (\<lambda>a_lat.
     bind (or_else (dict_get lat_long ''longitude'') (dict_get hdp ''longitude'')) (\<lambda>a_lon.
     bind (or_else (dict_get raw ''buildingName'')
             (or_else (dict_get hdp ''buildingName'') (dict_get raw ''name''))) (\<lambda>a_building.
     bind (dict_get raw ''contactPhoneNumber'') (\<lambda>a_phone.
     bind (or_else (dict_get raw ''unformattedPrice'')
             (or_else (dict_get raw ''price'') (dict_get hdp ''price''))) (\<lambda>a_min.
     bind (or_else (dict_get raw ''priceReduction'')
             (or_else (dict_get raw ''price'') (dict_get hdp ''price''))) (\<lambda>a_max.
     bind (or_else (dict_get raw ''unitTypes'')
             (or_else (dict_get raw ''bedsBaths'') (dict_get raw ''beds''))) (\<lambda>a_units.
     bind (or_else (dict_get raw ''totalUnits'') (dict_get hdp ''totalUnits'')) (\<lambda>a_total.
     bind (extract_photos raw) (\<lambda>a_photos.
     bind (dict_get raw ''isFeaturedListing'') (\<lambda>a_featured.
     bind (or_else (dict_get raw ''badgeText'')
             (bind (or_else (dict_get raw ''variableData'') (Inr (JDict [])))
                (\<lambda>var. dict_get var ''text''))) (\<lambda>a_badge.
     bind (getitem address_info ''address'') (\<lambda>i_address.
     bind (getitem address_info ''addressStreet'') (\<lambda>i_street.
     bind (getitem address_info ''addressCity'') (\<lambda>i_city.
     bind (getitem address_info ''addressState'') (\<lambda>i_state.
     bind (getitem address_info ''addressZipcode'') (\<lambda>i_zipcode.
     Inr (to_dict
       \<lparr>zpid = JStr (py_str B a_zpid),
        providerListingId = a_provider,
        statusType = a_status_type,
        statusText = a_status_text,
        imageSource = a_image,
        detailUrl = a_detail,
        address = i_address,
        addressStreet = i_street,
        addressCity = i_city,
        addressState = i_state,
        addressZipcode = i_zipcode,
        latitude = a_lat,
        longitude = a_lon,
        buildingName = a_building,
        contactPhoneNumber = a_phone,
        minPrice = a_min,
        maxPrice = a_max,
        unitTypes = a_units,
        totalUnits = a_total,
        photoUrls = JList (map JStr a_photos),
        isFeaturedListing = JBool (truthy a_featured),
        badgeText = a_badge\<rparr>))))))))))))))))))))))))))"

text \<open>The loop itself: the records of the raw objects in order; the first exception
  ends the run of the loop and is the result.\<close>

fun parse_listings :: "py_builtins \<Rightarrow> json list \<Rightarrow> py_error + json list" where
  "parse_listings B [] = Inr []"
| "parse_listings B (raw # raws) =
     bind (parse_listing B raw) (\<lambda>r.
     bind (parse_listings B raws) (\<lambda>rs. Inr (r # rs)))"

text \<open>\<^verbatim>\<open>_iter_list_results\<close>: the walk down the state tree inside
  \<^verbatim>\<open>try ... except (KeyError, TypeError)\<close>. The generator raises, if at all, before its
  first \<^verbatim>\<open>yield\<close>, so it is the list of objects it yields.\<close>

definition iter_list_results :: "json \<Rightarrow> py_error + json list" where
  "iter_list_results state =
     (case
        bind (getitem state ''props'') (\<lambda>p.
        bind (getitem p ''pageProps'') (\<lambda>props.
        bind (or_else (dict_get props ''searchPageState'') (dict_get props ''searchState''))
          (\<lambda>search_state.
        bind (getitem search_state ''cat1'') (\<lambda>cat1.
        bind (getitem cat1 ''searchResults'') (\<lambda>search_results.
        bind (dict_get_default search_results ''listResults'' (JList [])) (\<lambda>list_results.
        py_iter list_results))))))
      of
        Inl KeyError \<Rightarrow> Inr []
      | Inl TypeError \<Rightarrow> Inr []
      | Inl e \<Rightarrow> Inl e
      | Inr raws \<Rightarrow> Inr raws)"

text \<open>
  \<^verbatim>\<open>_extract_json_state\<close> calls BeautifulSoup, \<^verbatim>\<open>re\<close> and \<^verbatim>\<open>json\<close>; what they return
  is a parameter of the model: the text of the script element \<^verbatim>\<open>__NEXT_DATA__\<close> (if the
  document has one), the flattened text of the document, the match of the fallback
  pattern in a text (if any), and the object a JSON text decodes to (if it decodes).
\<close>

record html_lib =
  find_next_data :: "string \<Rightarrow> string option"
  get_text :: "string \<Rightarrow> string"
  search_props :: "string \<Rightarrow> string option"
  json_loads :: "string \<Rightarrow> json option"

text \<open>The brace-counting scan of the fallback: the index after the brace that closes
  the first one, or 0 when the scan ends without finding it.\<close>

fun brace_scan :: "string \<Rightarrow> nat \<Rightarrow> int \<Rightarrow> nat" where
  "brace_scan [] i brace_count = 0"
| "brace_scan (ch # candidate) i brace_count =
     (if ch = CHR ''{'' then brace_scan candidate (i + 1) (brace_count + 1)
      else if ch = CHR ''}'' then
        (if brace_count - 1 = 0 then i + 1
         else brace_scan candidate (i + 1) (brace_count - 1))
      else brace_scan candidate (i + 1) brace_count)"

text \<open>The fallback of \<^verbatim>\<open>_extract_json_state\<close>; \<^verbatim>\<open>None\<close> is \<open>JNull\<close>.\<close>

definition fallback_state :: "html_lib \<Rightarrow> string \<Rightarrow> json" where
  "fallback_state L html =
     (case search_props L (get_text L html) of
        Some candidate \<Rightarrow>
          (let end_index = brace_scan candidate 0 0 in
           if end_index \<noteq> 0
           then (case json_loads L (take end_index candidate) of
                   Some v \<Rightarrow> v
                 | None \<Rightarrow> JNull)
           else JNull)
      | None \<Rightarrow> JNull)"

definition extract_json_state :: "html_lib \<Rightarrow> string \<Rightarrow> json" where
  "extract_json_state L html =
     (case find_next_data L html of
        Some script_string \<Rightarrow>
          (if script_string \<noteq> []
           then (case json_loads L script_string of
                   Some v \<Rightarrow> v
                 | None \<Rightarrow> fallback_state L html)
           else fallback_state L html)
      | None \<Rightarrow> fallback_state L html)"

text \<open>\<^verbatim>\<open>parse_search_results\<close>.\<close>

definition parse_search_results :: "py_builtins \<Rightarrow> html_lib \<Rightarrow> string \<Rightarrow> py_error + json list" where
  "parse_search_results B L html =
     (let state = extract_json_state L html in
      if state = JNull then Inr []
      else bind (iter_list_results state) (parse_listings B))"

text \<open>\<^verbatim>\<open>build_search_url\<close>.\<close>

definition build_search_url :: "py_builtins \<Rightarrow> string \<Rightarrow> string \<Rightarrow> int \<Rightarrow> string \<Rightarrow> string" where
  "build_search_url B city listing_type page language =
     (let slug_city =
            map (\<lambda>c. if c = CHR '' '' then CHR ''-'' else c)
              (filter (\<lambda>c. c \<noteq> CHR '','') (str_lower B city));
          lt = str_lower B listing_type;
          path =
            (if lt \<in> set [''for_rent'', ''for-rent'', ''rent'']
               then ''/homes/for_rent/'' @ slug_city @ ''_rb/''
             else if lt \<in> set [''for_sale'', ''for-sale'', ''sale'']
               then ''/homes/for_sale/'' @ slug_city @ ''_rb/''
             else if lt \<in> set [''sold'', ''recently_sold'', ''recently-sold'']
               then ''/homes/recently_sold/'' @ slug_city @ ''_rb/''
             else ''/homes/for_rent/'' @ slug_city @ ''_rb/'');
          url = ''https://www.zillow.com'' @ path
      in if page > 1 then url @ str_int page @ ''_p/'' else url)"

text \<open>The filter loop of \<^verbatim>\<open>fetch_city_listings\<close>; \<open>normalized\<close> is the set of
  lower-cased home types.\<close>

fun filter_home_types :: "py_builtins \<Rightarrow> string set \<Rightarrow> json list \<Rightarrow> py_error + json list" where
  "filter_home_types B normalized [] = Inr []"
| "filter_home_types B normalized (r # records) =
     bind (or_else (dict_get r ''unitTypes'') (Inr (JStr []))) (\<lambda>u.
     let unit_types = str_lower B (py_str B u) in
     bind (filter_home_types B normalized records) (\<lambda>filtered.
     Inr (if \<exists>ht\<in>normalized. substring_in ht unit_types then r # filtered else filtered)))"

text \<open>
  \<^verbatim>\<open>fetch_city_listings\<close>. The page comes from \<^verbatim>\<open>fetch_search_page\<close>, a request over
  the network: \<open>fetch url language\<close> is its outcome, the text of the page or the
  \<^verbatim>\<open>ZillowClientError\<close> it raises. \<open>home_types\<close> is \<open>None\<close> for the default argument.
\<close>

definition fetch_city_listings ::
  "py_builtins \<Rightarrow> html_lib \<Rightarrow> (string \<Rightarrow> string \<Rightarrow> py_error + string) \<Rightarrow>
     string \<Rightarrow> string \<Rightarrow> string list option \<Rightarrow> int \<Rightarrow> string \<Rightarrow> py_error + json list" where
  "fetch_city_listings B L fetch city listing_type home_types page language =
     (let url = build_search_url B city listing_type page language in
      bind (fetch url language) (\<lambda>html.
      bind (parse_search_results B L html) (\<lambda>records.
      if records = [] then Inr []
      else (case home_types of
              Some hts \<Rightarrow>
                if hts \<noteq> []
                then filter_home_types B (set (map (str_lower B) hts)) records
                else Inr records
            | None \<Rightarrow> Inr records))))"

section \<open>Exporters (\<^verbatim>\<open>outputs/exporter_csv.py\<close>, \<^verbatim>\<open>outputs/exporter_json.py\<close>)\<close>

text \<open>\<^verbatim>\<open>rec.keys()\<close> and \<^verbatim>\<open>rec.items()\<close>.\<close>

definition dict_items :: "json \<Rightarrow> py_error + (string \<times> json) list" where
  "dict_items x = (case x of JDict kvs \<Rightarrow> Inr kvs | _ \<Rightarrow> Inl AttributeError)"

definition dict_keys :: "json \<Rightarrow> py_error + string list" where
  "dict_keys x = bind (dict_items x) (\<lambda>kvs. Inr (map fst kvs))"

text \<open>\<^verbatim>\<open>_collect_fieldnames\<close>: the inner loop over the keys of one record, and the outer
  loop over the records.\<close>

fun keys_loop :: "string list \<Rightarrow> string set \<Rightarrow> string list \<Rightarrow> string set \<times> string list" where
  "keys_loop [] seen fieldnames = (seen, fieldnames)"
| "keys_loop (key # keys) seen fieldnames =
     (if key \<notin> seen then keys_loop keys (insert key seen) (fieldnames @ [key])
      else keys_loop keys seen fieldnames)"

fun fieldnames_loop :: "json list \<Rightarrow> string set \<Rightarrow> string list \<Rightarrow> py_error + string list" where
  "fieldnames_loop [] seen fieldnames = Inr fieldnames"
| "fieldnames_loop (r # records) seen fieldnames =
     bind (dict_keys r) (\<lambda>keys.
     case keys_loop keys seen fieldnames of
       (seen', fieldnames') \<Rightarrow> fieldnames_loop records seen' fieldnames')"

definition collect_fieldnames :: "json list \<Rightarrow> py_error + string list" where
  "collect_fieldnames records = fieldnames_loop records {} []"

text \<open>The value stored in \<open>flat\<close> for one value of a record.\<close>

definition flat_value :: "py_builtins \<Rightarrow> json \<Rightarrow> json" where
  "flat_value B v =
     (case v of
        JList vs \<Rightarrow> JStr (join ''|'' (map (\<lambda>x. if x = JNull then [] else py_str B x) vs))
      | JNull \<Rightarrow> JStr []
      | _ \<Rightarrow> v)"

text \<open>
  \<^verbatim>\<open>csv.DictWriter.writerow\<close> refuses a row with a key that is not a field name;
  otherwise it hands the underlying writer, for every field name in order, the value
  the row has under it, and the empty string where it has none. The text the writer
  makes of a row (separators, quoting) is the library's and is not modelled: the file
  is the list of rows written.
\<close>

definition dict_to_list :: "string list \<Rightarrow> (string \<times> json) list \<Rightarrow> py_error + json list" where
  "dict_to_list fieldnames rowdict =
     (if \<exists>k\<in>set (map fst rowdict). k \<notin> set fieldnames
      then Inl (ValueError ''dict contains fields not in fieldnames'')
      else Inr (map (\<lambda>key. case map_of rowdict key of None \<Rightarrow> JStr [] | Some v \<Rightarrow> v)
                  fieldnames))"

fun write_rows :: "py_builtins \<Rightarrow> string list \<Rightarrow> json list \<Rightarrow> py_error + json list list" where
  "write_rows B fieldnames [] = Inr []"
| "write_rows B fieldnames (r # records) =
     bind (dict_items r) (\<lambda>kvs.
     let flat = map (\<lambda>kv. (fst kv, flat_value B (snd kv))) kvs in
     bind (dict_to_list fieldnames flat) (\<lambda>row.
     bind (write_rows B fieldnames records) (\<lambda>rows.
     Inr (row # rows))))"

text \<open>\<^verbatim>\<open>export_to_csv\<close>: the rows written to the file, the header first; no row at all
  for an empty record list.\<close>

definition export_to_csv :: "py_builtins \<Rightarrow> json list \<Rightarrow> py_error + json list list" where
  "export_to_csv B records =
     (if records = [] then Inr []
      else bind (collect_fieldnames records) (\<lambda>fieldnames.
           bind (write_rows B fieldnames records) (\<lambda>rows.
           Inr (map JStr fieldnames # rows))))"

text \<open>What an export writes: the object given to \<^verbatim>\<open>json.dump\<close>, the rows of a CSV file,
  or the text of one of the other formats.\<close>

datatype written = JsonDump json | CsvRows "json list list" | TextFile string

fun serialize_loop :: "json list \<Rightarrow> json list \<Rightarrow> json list" where
  "serialize_loop [] serialized = serialized"
| "serialize_loop (r # records) serialized = serialize_loop records (serialized @ [r])"

definition serialize_for_json :: "json list \<Rightarrow> json list" where
  "serialize_for_json records = serialize_loop records []"

definition export_json :: "json list \<Rightarrow> json \<Rightarrow> written" where
  "export_json records metadata =
     JsonDump (JDict [(''metadata'', metadata), (''results'', JList (serialize_for_json records))])"

text \<open>\<^verbatim>\<open>metadata.setdefault(k, v)\<close>.\<close>

definition setdefault :: "json \<Rightarrow> string \<Rightarrow> json \<Rightarrow> py_error + json" where
  "setdefault x k v =
     (case x of
        JDict kvs \<Rightarrow> Inr (JDict (if k \<in> set (map fst kvs) then kvs else kvs @ [(k, v)]))
      | _ \<Rightarrow> Inl AttributeError)"

text \<open>
  \<^verbatim>\<open>export_records\<close>. \<open>metadata\<close> is \<open>JNull\<close> for the default argument, \<open>now\<close> the
  time stamp \<^verbatim>\<open>datetime.utcnow().isoformat(timespec="seconds")\<close>, and \<open>render\<close> the text
  the XML, RSS and HTML exporters make of the records and the metadata.
\<close>

definition export_records ::
  "py_builtins \<Rightarrow> (string \<Rightarrow> json list \<Rightarrow> json \<Rightarrow> string) \<Rightarrow>
     json list \<Rightarrow> string \<Rightarrow> json \<Rightarrow> string \<Rightarrow> py_error + written" where
  "export_records B render records fmt metadata now =
     (let fmt' = str_lower B fmt in
      bind (setdefault (if truthy metadata then metadata else JDict [])
              ''generatedAt'' (JStr (now @ ''Z''))) (\<lambda>metadata'.
      if fmt' = ''json'' then Inr (export_json records metadata')
      else if fmt' = ''xml'' \<or> fmt' = ''rss'' \<or> fmt' = ''html''
        then Inr (TextFile (render fmt' records metadata'))
      else Inl (ValueError (''Unsupported export format: '' @ fmt'))))"

section \<open>Orchestrator (\<^verbatim>\<open>main.py\<close>)\<close>

text \<open>The export step of \<^verbatim>\<open>run\<close>: the metadata of the run and the dispatch on the
  output format. \<open>now\<close> is the time stamp taken by \<^verbatim>\<open>run\<close>, \<open>now'\<close> the one taken by
  \<^verbatim>\<open>export_records\<close>.\<close>

definition run_export ::
  "py_builtins \<Rightarrow> (string \<Rightarrow> json list \<Rightarrow> json \<Rightarrow> string) \<Rightarrow>
     string list \<Rightarrow> string list \<Rightarrow> json list \<Rightarrow> string \<Rightarrow> string \<Rightarrow> string \<Rightarrow> py_error + written" where
  "run_export B render cities listing_types all_records output_format now now' =
     (let metadata = JDict
            [(''generatedAt'', JStr (now @ ''Z'')),
             (''cityCount'', JInt (int (length cities))),
             (''listingTypes'', JList (map JStr listing_types)),
             (''recordCount'', JInt (int (length all_records)))]
      in if output_format = ''csv''
         then bind (export_to_csv B all_records) (\<lambda>rows. Inr (CsvRows rows))
         else export_records B render all_records output_format metadata now')"

section \<open>Notions used in the statements\<close>

text \<open>The value of \<^verbatim>\<open>c1 or c2 or ... or cn\<close>: the first truthy candidate, and the
  last candidate when none is truthy.\<close>

fun coalesce :: "json list \<Rightarrow> json" where
  "coalesce [] = JNull"
| "coalesce [c] = c"
| "coalesce (c # d # cs) = (if truthy c then c else coalesce (d # cs))"

text \<open>The reading of the specification: the first candidate that is not null.\<close>

fun first_non_null :: "json list \<Rightarrow> json" where
  "first_non_null [] = JNull"
| "first_non_null (c # cs) = (if c \<noteq> JNull then c else first_non_null cs)"

text \<open>The nested \<^verbatim>\<open>hdpData.homeInfo\<close> object of a raw listing.\<close>

definition home_info :: "json \<Rightarrow> json" where
  "home_info raw = item (item raw ''hdpData'') ''homeInfo''"

text \<open>The source locations of the identifier, in precedence order.\<close>

definition zpid_sources :: "json \<Rightarrow> json list" where
  "zpid_sources raw = [item raw ''zpid'', item (home_info raw) ''zpid'']"

text \<open>The precedence table: for every other field of the record that is read from the
  raw object by key, its candidate source locations in precedence order.\<close>

definition source_table :: "json \<Rightarrow> (string \<times> json list) list" where
  "source_table raw =
     [(''providerListingId'',
         [item raw ''providerListingId'', item (home_info raw) ''providerListingId'']),
      (''statusType'', [item raw ''statusType'', item (home_info raw) ''homeStatus'']),
      (''statusText'', [item raw ''statusText'', item raw ''statusType'']),
      (''imageSource'', [item raw ''imgSrc'']),
      (''detailUrl'',
         [item raw ''detailUrl'', item raw ''detailUrlPath'', item (home_info raw) ''detailUrl'']),
      (''addressStreet'', [item (item raw ''address'') ''streetAddress'', item raw ''addressStreet'']),
      (''addressCity'', [item (item raw ''address'') ''city'', item raw ''addressCity'']),
      (''addressState'', [item (item raw ''address'') ''state'', item raw ''addressState'']),
      (''addressZipcode'', [item (item raw ''address'') ''zipcode'', item raw ''addressZipcode'']),
      (''latitude'', [item (item raw ''latLong'') ''latitude'', item (home_info raw) ''latitude'']),
      (''longitude'', [item (item raw ''latLong'') ''longitude'', item (home_info raw) ''longitude'']),
      (''buildingName'',
         [item raw ''buildingName'', item (home_info raw) ''buildingName'', item raw ''name'']),
      (''contactPhoneNumber'', [item raw ''contactPhoneNumber'']),
      (''minPrice'', [item raw ''unformattedPrice'', item raw ''price'', item (home_info raw) ''price'']),
      (''maxPrice'', [item raw ''priceReduction'', item raw ''price'', item (home_info raw) ''price'']),
      (''unitTypes'', [item raw ''unitTypes'', item raw ''bedsBaths'', item raw ''beds'']),
      (''totalUnits'', [item raw ''totalUnits'', item (home_info raw) ''totalUnits'']),
      (''badgeText'', [item raw ''badgeText'', item (item raw ''variableData'') ''text''])]"

text \<open>The photo URLs of a raw listing in the order the sources are merged: the top-level
  image source, the top-level list, the list of the home info, the \<^verbatim>\<open>url\<close> of each of
  its photo objects; entries that are not strings are left out.\<close>

definition list_strs :: "json \<Rightarrow> string list" where
  "list_strs x = (case x of JList xs \<Rightarrow> strs_of xs | _ \<Rightarrow> [])"

definition photo_sources :: "json \<Rightarrow> string list" where
  "photo_sources raw =
     strs_of [item raw ''imgSrc'']
     @ list_strs (item raw ''photoUrls'')
     @ list_strs (item (home_info raw) ''photoUrls'')
     @ (case item (home_info raw) ''photos'' of
          JList ps \<Rightarrow> strs_of (map (\<lambda>p. item p ''url'') ps)
        | _ \<Rightarrow> [])"

text \<open>The composite address as the specification words it: the non-null components,
  joined.\<close>

definition joined_non_null :: "json list \<Rightarrow> json" where
  "joined_non_null components =
     (let parts = filter (\<lambda>p. p \<noteq> JNull) components in
      if parts = [] then JNull else JStr (join '', '' (strs_of parts)))"

text \<open>First-seen order without duplicates: every entry is kept where it occurs first,
  and its later occurrences are dropped.\<close>

fun first_seen :: "'a list \<Rightarrow> 'a list" where
  "first_seen [] = []"
| "first_seen (x # xs) = x # filter (\<lambda>y. y \<noteq> x) (first_seen xs)"

text \<open>The composite address as the code builds it: the truthy components, joined.\<close>

definition joined_truthy :: "json list \<Rightarrow> json" where
  "joined_truthy components =
     (let parts = filter truthy components in
      if parts = [] then JNull else JStr (join '', '' (strs_of parts)))"

text \<open>The cell of a record under a column as the specification words it: the empty
  string for a key the record lacks and for null, the items of a list joined with a
  bar (null items as empty strings), any other value as it is.\<close>

definition csv_cell :: "py_builtins \<Rightarrow> (string \<times> json) list \<Rightarrow> string \<Rightarrow> json" where
  "csv_cell B d key =
     (case map_of d key of
        None \<Rightarrow> JStr []
      | Some JNull \<Rightarrow> JStr []
      | Some (JList vs) \<Rightarrow> JStr (join ''|'' (map (\<lambda>x. if x = JNull then [] else py_str B x) vs))
      | Some v \<Rightarrow> v)"

text \<open>The union of the keys of the records, in first-seen order.\<close>

definition key_union :: "(string \<times> json) list list \<Rightarrow> string list" where
  "key_union ds = first_seen (concat (map (map fst) ds))"

text \<open>A field of the record a computation returns.\<close>

definition result_item :: "py_error + json \<Rightarrow> string \<Rightarrow> py_error + json" where
  "result_item m k = bind m (\<lambda>r. Inr (item r k))"

section \<open>Example inputs\<close>

text \<open>A listing whose top-level unit count is 0 and whose home info counts 12 units.\<close>

definition listing_zero_units :: json where
  "listing_zero_units = JDict
     [(''totalUnits'', JInt 0),
      (''hdpData'', JDict [(''homeInfo'', JDict [(''totalUnits'', JInt 12)])])]"

text \<open>A listing with an empty street and a city.\<close>

definition listing_empty_street :: json where
  "listing_empty_street = JDict [(''addressStreet'', JStr []), (''addressCity'', JStr ''Austin'')]"

text \<open>A listing with a top-level image source and two photo lists that overlap with it
  and with each other.\<close>

definition listing_photos :: json where
  "listing_photos = JDict
     [(''zpid'', JInt 123),
      (''imgSrc'', JStr ''u1''),
      (''photoUrls'', JList [JStr ''u2'', JStr ''u1'', JInt 3]),
      (''price'', JStr ''$1,200''),
      (''address'', JDict [(''streetAddress'', JStr ''1 Main St''), (''city'', JStr ''Austin'')]),
      (''addressState'', JStr ''TX''),
      (''hdpData'', JDict [(''homeInfo'', JDict
         [(''price'', JInt 1200),
          (''photos'', JList [JDict [(''url'', JStr ''u3'')], JDict [(''url'', JStr ''u2'')]])])])]"

text \<open>The record of that listing.\<close>

definition listing_photos_record :: json where
  "listing_photos_record = JDict
     [(''zpid'', JStr ''123''), (''providerListingId'', JNull),
      (''statusType'', JNull), (''statusText'', JNull),
      (''imageSource'', JStr ''u1''), (''detailUrl'', JNull),
      (''address'', JStr ''1 Main St, Austin, TX''),
      (''addressStreet'', JStr ''1 Main St''),
      (''addressCity'', JStr ''Austin''), (''addressState'', JStr ''TX''),
      (''addressZipcode'', JNull), (''latitude'', JNull),
      (''longitude'', JNull), (''buildingName'', JNull),
      (''contactPhoneNumber'', JNull), (''minPrice'', JStr ''$1,200''),
      (''maxPrice'', JStr ''$1,200''), (''unitTypes'', JNull),
      (''totalUnits'', JNull),
      (''photoUrls'', JList [JStr ''u1'', JStr ''u2'', JStr ''u3'']),
      (''isFeaturedListing'', JBool False), (''badgeText'', JNull)]"

text \<open>The record of the listing with no key at all.\<close>

definition empty_listing_record :: json where
  "empty_listing_record = JDict
     [(''zpid'', JStr []), (''providerListingId'', JNull),
      (''statusType'', JNull), (''statusText'', JNull),
      (''imageSource'', JNull), (''detailUrl'', JNull),
      (''address'', JNull), (''addressStreet'', JNull),
      (''addressCity'', JNull), (''addressState'', JNull),
      (''addressZipcode'', JNull), (''latitude'', JNull),
      (''longitude'', JNull), (''buildingName'', JNull),
      (''contactPhoneNumber'', JNull), (''minPrice'', JNull),
      (''maxPrice'', JNull), (''unitTypes'', JNull),
      (''totalUnits'', JNull), (''photoUrls'', JList []),
      (''isFeaturedListing'', JBool False), (''badgeText'', JNull)]"

text \<open>What the libraries return on a document whose \<^verbatim>\<open>__NEXT_DATA__\<close> script holds the
  text \<open>script\<close>, which decodes to \<open>state\<close>.\<close>

definition next_data_lib :: "string \<Rightarrow> json \<Rightarrow> html_lib" where
  "next_data_lib script state =
     \<lparr>find_next_data = (\<lambda>html. Some script),
      get_text = (\<lambda>html. []),
      search_props = (\<lambda>text. None),
      json_loads = (\<lambda>s. if s = script then Some state else None)\<rparr>"

text \<open>What they return on a document with no such script and no match of the fallback
  pattern.\<close>

definition no_state_lib :: html_lib where
  "no_state_lib =
     \<lparr>find_next_data = (\<lambda>html. None),
      get_text = (\<lambda>html. html),
      search_props = (\<lambda>text. None),
      json_loads = (\<lambda>s. None)\<rparr>"

text \<open>The state tree that holds the raw listings \<open>raws\<close> at the place the extractor
  walks to.\<close>

definition search_state :: "json \<Rightarrow> json" where
  "search_state list_results = JDict
     [(''props'', JDict
        [(''pageProps'', JDict
           [(''searchPageState'', JDict
              [(''cat1'', JDict
                 [(''searchResults'', JDict [(''listResults'', list_results)])])])])])]"

text \<open>The state tree \<^verbatim>\<open>{"props": {"pageProps": []}}\<close>.\<close>

definition page_props_list :: json where
  "page_props_list = JDict [(''props'', JDict [(''pageProps'', JList [])])]"

text \<open>Two listings, an apartment and one that gives its beds only, and their records.\<close>

definition two_listings :: json where
  "two_listings = JList [JDict [(''unitTypes'', JStr ''Apartment'')], JDict [(''beds'', JInt 3)]]"

definition record_apartment :: json where
  "record_apartment = JDict
     [(''zpid'', JStr []), (''providerListingId'', JNull),
      (''statusType'', JNull), (''statusText'', JNull),
      (''imageSource'', JNull), (''detailUrl'', JNull),
      (''address'', JNull), (''addressStreet'', JNull),
      (''addressCity'', JNull), (''addressState'', JNull),
      (''addressZipcode'', JNull), (''latitude'', JNull),
      (''longitude'', JNull), (''buildingName'', JNull),
      (''contactPhoneNumber'', JNull), (''minPrice'', JNull),
      (''maxPrice'', JNull), (''unitTypes'', JStr ''Apartment''),
      (''totalUnits'', JNull), (''photoUrls'', JList []),
      (''isFeaturedListing'', JBool False), (''badgeText'', JNull)]"

definition record_three_beds :: json where
  "record_three_beds = JDict
     [(''zpid'', JStr []), (''providerListingId'', JNull),
      (''statusType'', JNull), (''statusText'', JNull),
      (''imageSource'', JNull), (''detailUrl'', JNull),
      (''address'', JNull), (''addressStreet'', JNull),
      (''addressCity'', JNull), (''addressState'', JNull),
      (''addressZipcode'', JNull), (''latitude'', JNull),
      (''longitude'', JNull), (''buildingName'', JNull),
      (''contactPhoneNumber'', JNull), (''minPrice'', JNull),
      (''maxPrice'', JNull), (''unitTypes'', JInt 3),
      (''totalUnits'', JNull), (''photoUrls'', JList []),
      (''isFeaturedListing'', JBool False), (''badgeText'', JNull)]"

text \<open>A network that answers every request with the same page.\<close>

definition fetch_page :: "string \<Rightarrow> string \<Rightarrow> string \<Rightarrow> py_error + string" where
  "fetch_page html url language = Inr html"

text \<open>Exporters of the other formats that write no text.\<close>

definition no_text :: "string \<Rightarrow> json list \<Rightarrow> json \<Rightarrow> string" where
  "no_text fmt records metadata = []"

text \<open>The record set \<^verbatim>\<open>[{"a": "1", "b": ["x", "y"]}]\<close>.\<close>

definition record_a_b :: "(string \<times> json) list" where
  "record_a_b = [(''a'', JStr ''1''), (''b'', JList [JStr ''x'', JStr ''y''])]"

section \<open>Properties of the geo utilities\<close>

lemma centroid_loop_sums:
  "centroid_loop coords a b n =
     (a + sum_list (map fst coords), b + sum_list (map snd coords), n + length coords)"
  by (induction coords arbitrary: a b n) (auto simp: algebra_simps)

lemma sin_half_radians_sq_swap:
  "(sin (radians (y - x) / 2)) ^ 2 = (sin (radians (x - y) / 2)) ^ 2"
proof -
  have "radians (y - x) / 2 = - (radians (x - y) / 2)"
    by (simp add: radians_def field_simps)
  then show ?thesis
    by (simp only: sin_minus power2_minus)
qed

text \<open>
  Claim C6. \<^verbatim>\<open>compute_centroid\<close> fails on the empty sequence (the source raises
  \<^verbatim>\<open>ValueError\<close>, the error the specification lists as its empty-input error), returns
  the point itself on a singleton, and returns the mean latitude and the mean
  longitude on every non-empty sequence.
\<close>

theorem compute_centroid_mean:
  "compute_centroid [] = Inl (ValueError ''compute_centroid() requires at least one coordinate'')
   \<and> compute_centroid [(lat, lon)] = Inr (lat, lon)
   \<and> (coords \<noteq> [] \<longrightarrow>
        compute_centroid coords =
          Inr (sum_list (map fst coords) / real (length coords),
               sum_list (map snd coords) / real (length coords)))"
  by (simp add: compute_centroid_def centroid_loop_sums)

theorem compute_centroid_mean_witness:
  "[(1, 2), (3, 6)] \<noteq> ([] :: (real \<times> real) list)
   \<and> compute_centroid [(1, 2), (3, 6)] = Inr (2, 4)"
  using compute_centroid_mean [of 0 0 "[(1, 2), (3, 6)]"] by simp

text \<open>
  Claim C7. The great-circle distance is symmetric in its two points: swapping
  \<open>(lat1, lon1)\<close> with \<open>(lat2, lon2)\<close> gives the same result.
\<close>

theorem haversine_distance_km_symmetric:
  "haversine_distance_km lat1 lon1 lat2 lon2 = haversine_distance_km lat2 lon2 lat1 lon1"
  unfolding haversine_distance_km_def Let_def
  by (simp only: sin_half_radians_sq_swap [of lat2 lat1] sin_half_radians_sq_swap [of lon2 lon1]
        mult.commute [of "cos (radians lat1)" "cos (radians lat2)"])

section \<open>Properties of the Python primitives and of the record extractor\<close>

lemma bind_Inr [simp]: "bind (Inr v) f = f v"
  by (simp add: bind_def)

lemma bind_Inl [simp]: "bind (Inl e) f = Inl e"
  by (simp add: bind_def)

lemma bindE:
  assumes "bind m f = Inr r"
  obtains v where "m = Inr v" and "f v = Inr r"
  using assms by (cases m) auto

lemma dict_get_dict [simp]: "dict_get (JDict kvs) k = Inr (item (JDict kvs) k)"
  by (simp add: dict_get_def dict_get_default_def split: option.splits)

lemma dict_get_InrD: "dict_get x k = Inr v \<Longrightarrow> v = item x k"
  by (cases x) (auto simp: dict_get_def dict_get_default_def split: option.splits)

lemma falsy_item: "\<not> truthy x \<Longrightarrow> item x k = JNull"
  by (cases x) auto

lemma or_else_InrE:
  assumes "or_else m n = Inr a"
  obtains x where "m = Inr x" and "truthy x" and "a = x"
  | x where "m = Inr x" and "\<not> truthy x" and "n = Inr a"
  using assms by (cases m) (auto simp: or_else_def split: if_splits)

lemma coalesce2D:
  "or_else (dict_get x k) (dict_get y l) = Inr a \<Longrightarrow> a = coalesce [item x k, item y l]"
  by (erule or_else_InrE) (auto dest: dict_get_InrD)

lemma coalesce3D:
  "or_else (dict_get x k) (or_else (dict_get y l) (dict_get z m)) = Inr a
   \<Longrightarrow> a = coalesce [item x k, item y l, item z m]"
  by (erule or_else_InrE) (auto dest: dict_get_InrD coalesce2D)

lemma coalesce_defaultD:
  "or_else (dict_get x k) (or_else (dict_get y l) (Inr c)) = Inr a
   \<Longrightarrow> a = coalesce [item x k, item y l, c]"
  by (elim or_else_InrE) (auto dest: dict_get_InrD)

lemma home_infoD:
  "bind (dict_get_default raw ''hdpData'' (JDict [])) (\<lambda>h. dict_get_default h ''homeInfo'' (JDict [])) = Inr hdp
   \<Longrightarrow> item hdp k = item (home_info raw) k"
  apply (erule bindE)
  apply (cases raw; simp add: dict_get_default_def home_info_def split: option.splits)
  subgoal for v x
    by (cases v; auto split: option.splits)
  subgoal for v x
    by (cases v; auto split: option.splits)
  done


lemma strs_of_length: "length (strs_of xs) \<le> length xs"
  by (induction xs rule: strs_of.induct) auto

lemma strs_of_all:
  "length (strs_of xs) = length xs \<Longrightarrow> map JStr (strs_of xs) = xs"
proof (induction xs)
  case Nil
  then show ?case by simp
next
  case (Cons x xs)
  then show ?case
    using strs_of_length [of xs] by (cases x) auto
qed

lemma str_join_InrD:
  "str_join sep parts = Inr s \<Longrightarrow> map JStr (strs_of parts) = parts \<and> s = join sep (strs_of parts)"
  by (auto simp: str_join_def strs_of_all split: if_splits)

lemma photo_urls_InrD:
  "photo_urls ps = Inr urls \<Longrightarrow> urls = strs_of (map (\<lambda>p. item p ''url'') ps)"
proof (induction ps arbitrary: urls)
  case Nil
  then show ?case by simp
next
  case (Cons p ps)
  from Cons.prems obtain url rest where
    u: "dict_get p ''url'' = Inr url" and r: "photo_urls ps = Inr rest"
    and e: "urls = (case url of JStr s \<Rightarrow> s # rest | _ \<Rightarrow> rest)"
    by (auto elim!: bindE)
  from u have "url = item p ''url''" by (rule dict_get_InrD)
  with Cons.IH [OF r] e show ?case
    by (cases "item p ''url''") auto
qed


lemma getitem_InrD: "getitem x k = Inr v \<Longrightarrow> v = item x k"
  by (cases x) (auto simp: getitem_def split: option.splits)

lemma or_empty_dict_allD:
  "or_else (dict_get x k) (Inr (JDict [])) = Inr d \<Longrightarrow> \<forall>l. item d l = item (item x k) l"
  by (erule or_else_InrE) (auto dest: dict_get_InrD simp: falsy_item)

lemma home_info_allD:
  "bind (dict_get_default raw ''hdpData'' (JDict [])) (\<lambda>h. dict_get_default h ''homeInfo'' (JDict [])) = Inr hdp
   \<Longrightarrow> \<forall>k. item hdp k = item (home_info raw) k"
  by (simp add: home_infoD)

lemma address_parts_InrD:
  "(if parts \<noteq> [] then bind (str_join sep parts) (\<lambda>s. Inr (JStr s)) else Inr JNull) = Inr full
   \<Longrightarrow> map JStr (strs_of parts) = parts
       \<and> full = (if parts = [] then JNull else JStr (join sep (strs_of parts)))"
  by (auto split: if_splits elim!: bindE dest: str_join_InrD)

lemma format_address_items:
  assumes "format_address raw = Inr info"
  shows "item info ''addressStreet'' =
           coalesce [item (item raw ''address'') ''streetAddress'', item raw ''addressStreet'']"
    and "item info ''addressCity'' =
           coalesce [item (item raw ''address'') ''city'', item raw ''addressCity'']"
    and "item info ''addressState'' =
           coalesce [item (item raw ''address'') ''state'', item raw ''addressState'']"
    and "item info ''addressZipcode'' =
           coalesce [item (item raw ''address'') ''zipcode'', item raw ''addressZipcode'']"
    and "map JStr (strs_of (filter truthy
           [item info ''addressStreet'', item info ''addressCity'',
            item info ''addressState'', item info ''addressZipcode'']))
         = filter truthy
           [item info ''addressStreet'', item info ''addressCity'',
            item info ''addressState'', item info ''addressZipcode'']"
    and "item info ''address'' =
           (if filter truthy
                 [item info ''addressStreet'', item info ''addressCity'',
                  item info ''addressState'', item info ''addressZipcode''] = []
            then JNull
            else JStr (join '', '' (strs_of (filter truthy
                 [item info ''addressStreet'', item info ''addressCity'',
                  item info ''addressState'', item info ''addressZipcode'']))))"
proof -
  from assms obtain addr street city state zipcode full where
    a: "or_else (dict_get raw ''address'') (Inr (JDict [])) = Inr addr"
    and s: "or_else (dict_get addr ''streetAddress'') (dict_get raw ''addressStreet'') = Inr street"
    and c: "or_else (dict_get addr ''city'') (dict_get raw ''addressCity'') = Inr city"
    and t: "or_else (dict_get addr ''state'') (dict_get raw ''addressState'') = Inr state"
    and z: "or_else (dict_get addr ''zipcode'') (dict_get raw ''addressZipcode'') = Inr zipcode"
    and f: "(if filter truthy [street, city, state, zipcode] \<noteq> []
             then bind (str_join '', '' (filter truthy [street, city, state, zipcode]))
                    (\<lambda>s. Inr (JStr s))
             else Inr JNull) = Inr full"
    and i: "info = JDict
       [(''address'', full), (''addressStreet'', street), (''addressCity'', city),
        (''addressState'', state), (''addressZipcode'', zipcode)]"
    unfolding format_address_def Let_def by (elim bindE) auto
  note ad = or_empty_dict_allD [OF a, rule_format]
  have items: "item info ''addressStreet'' = street" "item info ''addressCity'' = city"
    "item info ''addressState'' = state" "item info ''addressZipcode'' = zipcode"
    "item info ''address'' = full"
    by (simp_all add: i)
  show "item info ''addressStreet'' =
           coalesce [item (item raw ''address'') ''streetAddress'', item raw ''addressStreet'']"
    using coalesce2D [OF s] by (simp only: items ad)
  show "item info ''addressCity'' =
           coalesce [item (item raw ''address'') ''city'', item raw ''addressCity'']"
    using coalesce2D [OF c] by (simp only: items ad)
  show "item info ''addressState'' =
           coalesce [item (item raw ''address'') ''state'', item raw ''addressState'']"
    using coalesce2D [OF t] by (simp only: items ad)
  show "item info ''addressZipcode'' =
           coalesce [item (item raw ''address'') ''zipcode'', item raw ''addressZipcode'']"
    using coalesce2D [OF z] by (simp only: items ad)
  show "map JStr (strs_of (filter truthy
           [item info ''addressStreet'', item info ''addressCity'',
            item info ''addressState'', item info ''addressZipcode'']))
         = filter truthy
           [item info ''addressStreet'', item info ''addressCity'',
            item info ''addressState'', item info ''addressZipcode'']"
    using address_parts_InrD [OF f] by (simp only: items)
  show "item info ''address'' =
           (if filter truthy
                 [item info ''addressStreet'', item info ''addressCity'',
                  item info ''addressState'', item info ''addressZipcode''] = []
            then JNull
            else JStr (join '', '' (strs_of (filter truthy
                 [item info ''addressStreet'', item info ''addressCity'',
                  item info ''addressState'', item info ''addressZipcode'']))))"
    using address_parts_InrD [OF f] by (simp only: items)
qed


lemma unique_loop_eq:
  "unique_loop xs seen acc = acc @ filter (\<lambda>x. x \<notin> seen) (first_seen xs)"
proof (induction xs arbitrary: seen acc)
  case Nil
  then show ?case by simp
next
  case (Cons x xs)
  show ?case
  proof (cases "x \<in> seen")
    case True
    then have "filter (\<lambda>y. y \<noteq> x \<and> y \<notin> seen) (first_seen xs)
        = filter (\<lambda>y. y \<notin> seen) (first_seen xs)"
      by (intro filter_cong) auto
    with True show ?thesis
      by (simp add: Cons.IH)
  next
    case False
    have "filter (\<lambda>y. y \<noteq> x \<and> y \<notin> seen) (first_seen xs)
        = filter (\<lambda>y. y \<notin> insert x seen) (first_seen xs)"
      by (intro filter_cong) auto
    with False show ?thesis
      by (simp add: Cons.IH)
  qed
qed

lemma set_first_seen: "set (first_seen xs) = set xs"
  by (induction xs) auto

lemma first_seen_Nil_iff: "first_seen xs = [] \<longleftrightarrow> xs = []"
  by (cases xs) auto

lemma distinct_first_seen: "distinct (first_seen xs)"
  by (induction xs) auto

lemma remdups_snoc: "remdups (ys @ [x]) = filter (\<lambda>y. y \<noteq> x) (remdups ys) @ [x]"
  by (induction ys) auto

lemma first_seen_remdups: "first_seen xs = rev (remdups (rev xs))"
  by (induction xs) (simp_all add: remdups_snoc rev_filter)

lemma top_level_photos_InrD:
  "top_level_photos raw = Inr photos \<Longrightarrow> photos = list_strs (item raw ''photoUrls'')"
  by (cases raw)
    (auto simp: top_level_photos_def py_in_def getitem_def list_items_def list_strs_def
      map_of_eq_None_iff [symmetric]
      split: if_splits option.splits json.splits elim!: bindE)

lemma home_info_photos_InrD:
  assumes "home_info_photos hdp photos = Inr photos'"
  shows "photos' = photos @ list_strs (item hdp ''photoUrls'')
           @ (case item hdp ''photos'' of
                JList ps \<Rightarrow> strs_of (map (\<lambda>p. item p ''url'') ps)
              | _ \<Rightarrow> [])"
proof (cases hdp)
  case (JDict kvs)
  with assms show ?thesis
    by (auto simp: home_info_photos_def list_items_def list_strs_def Let_def
        split: json.splits elim!: bindE dest!: photo_urls_InrD)
qed (use assms in \<open>auto simp: home_info_photos_def list_strs_def\<close>)

lemma extract_photos_InrD:
  assumes "extract_photos raw = Inr us"
  shows "us = first_seen (photo_sources raw)"
proof -
  from assms obtain photos1 hdp photos2 img where
    p1: "top_level_photos raw = Inr photos1"
    and h: "bind (dict_get_default raw ''hdpData'' (JDict []))
             (\<lambda>h. dict_get_default h ''homeInfo'' (JDict [])) = Inr hdp"
    and p2: "home_info_photos hdp photos1 = Inr photos2"
    and im: "dict_get raw ''imgSrc'' = Inr img"
    and u: "us = unique_loop (case img of JStr s \<Rightarrow> s # photos2 | _ \<Rightarrow> photos2) {} []"
    unfolding extract_photos_def Let_def
    by (auto elim!: bindE)
  have "(case img of JStr s \<Rightarrow> s # photos2 | _ \<Rightarrow> photos2) = strs_of [img] @ photos2"
    by (cases img) auto
  moreover have "img = item raw ''imgSrc''"
    using im by (rule dict_get_InrD)
  moreover note top_level_photos_InrD [OF p1] home_info_photos_InrD [OF p2]
    home_info_allD [OF h, rule_format]
  ultimately have "(case img of JStr s \<Rightarrow> s # photos2 | _ \<Rightarrow> photos2) = photo_sources raw"
    by (simp add: photo_sources_def)
  with u show ?thesis
    by (simp add: unique_loop_eq)
qed


lemma coalesce_badgeD:
  "or_else (dict_get x k)
     (bind (or_else (dict_get x l) (Inr (JDict []))) (\<lambda>var. dict_get var m)) = Inr a
   \<Longrightarrow> a = coalesce [item x k, item (item x l) m]"
  by (erule or_else_InrE)
    (auto dest!: dict_get_InrD or_empty_dict_allD elim!: bindE)

lemma photo_list_or_empty:
  "(if us \<noteq> [] then JList (map JStr us) else JList []) = JList (map JStr us)"
  by (cases us) auto

lemma home_info_all2D:
  "dict_get_default raw ''hdpData'' (JDict []) = Inr h
   \<Longrightarrow> dict_get_default h ''homeInfo'' (JDict []) = Inr hdp
   \<Longrightarrow> \<forall>k. item hdp k = item (home_info raw) k"
  by (rule home_info_allD) simp

lemma parse_listing_record:
  assumes "parse_listing B raw = Inr rec"
  obtains info where
    "format_address raw = Inr info"
    "rec = JDict
       [(''zpid'', JStr (py_str B (coalesce (zpid_sources raw @ [JStr []])))),
        (''providerListingId'',
           coalesce [item raw ''providerListingId'', item (home_info raw) ''providerListingId'']),
        (''statusType'', coalesce [item raw ''statusType'', item (home_info raw) ''homeStatus'']),
        (''statusText'', coalesce [item raw ''statusText'', item raw ''statusType'']),
        (''imageSource'', item raw ''imgSrc''),
        (''detailUrl'',
           coalesce [item raw ''detailUrl'', item raw ''detailUrlPath'',
                     item (home_info raw) ''detailUrl'']),
        (''address'', item info ''address''),
        (''addressStreet'', item info ''addressStreet''),
        (''addressCity'', item info ''addressCity''),
        (''addressState'', item info ''addressState''),
        (''addressZipcode'', item info ''addressZipcode''),
        (''latitude'',
           coalesce [item (item raw ''latLong'') ''latitude'', item (home_info raw) ''latitude'']),
        (''longitude'',
           coalesce [item (item raw ''latLong'') ''longitude'', item (home_info raw) ''longitude'']),
        (''buildingName'',
           coalesce [item raw ''buildingName'', item (home_info raw) ''buildingName'',
                     item raw ''name'']),
        (''contactPhoneNumber'', item raw ''contactPhoneNumber''),
        (''minPrice'',
           coalesce [item raw ''unformattedPrice'', item raw ''price'', item (home_info raw) ''price'']),
        (''maxPrice'',
           coalesce [item raw ''priceReduction'', item raw ''price'', item (home_info raw) ''price'']),
        (''unitTypes'', coalesce [item raw ''unitTypes'', item raw ''bedsBaths'', item raw ''beds'']),
        (''totalUnits'', coalesce [item raw ''totalUnits'', item (home_info raw) ''totalUnits'']),
        (''photoUrls'', JList (map JStr (first_seen (photo_sources raw)))),
        (''isFeaturedListing'', JBool (truthy (item raw ''isFeaturedListing''))),
        (''badgeText'', coalesce [item raw ''badgeText'', item (item raw ''variableData'') ''text''])]"
  using assms unfolding parse_listing_def
  apply (elim bindE)
  apply (drule (1) home_info_all2D)
  apply (drule or_empty_dict_allD coalesce_defaultD coalesce_badgeD
      coalesce3D coalesce2D extract_photos_InrD)+
  apply (drule dict_get_InrD getitem_InrD)+
  apply (cases "photo_sources raw = []")
   apply (simp_all add: to_dict_def zpid_sources_def first_seen_Nil_iff
      del: coalesce.simps cong: if_cong)
  done

lemma parse_listing_items:
  assumes "parse_listing B raw = Inr rec"
  shows "(k, cs) \<in> set (source_table raw) \<Longrightarrow> item rec k = coalesce cs"
    and "item rec ''zpid'' = JStr (py_str B (coalesce (zpid_sources raw @ [JStr []])))"
    and "item rec ''photoUrls'' = JList (map JStr (first_seen (photo_sources raw)))"
    and "item rec ''isFeaturedListing'' = JBool (truthy (item raw ''isFeaturedListing''))"
    and "item rec ''address'' =
           joined_truthy [item rec ''addressStreet'', item rec ''addressCity'',
                          item rec ''addressState'', item rec ''addressZipcode'']"
    and "map JStr (strs_of (filter truthy
           [item rec ''addressStreet'', item rec ''addressCity'',
            item rec ''addressState'', item rec ''addressZipcode'']))
         = filter truthy
           [item rec ''addressStreet'', item rec ''addressCity'',
            item rec ''addressState'', item rec ''addressZipcode'']"
proof -
  from assms obtain info where
    info: "format_address raw = Inr info" and
    r: "rec = JDict
       [(''zpid'', JStr (py_str B (coalesce (zpid_sources raw @ [JStr []])))),
        (''providerListingId'',
           coalesce [item raw ''providerListingId'', item (home_info raw) ''providerListingId'']),
        (''statusType'', coalesce [item raw ''statusType'', item (home_info raw) ''homeStatus'']),
        (''statusText'', coalesce [item raw ''statusText'', item raw ''statusType'']),
        (''imageSource'', item raw ''imgSrc''),
        (''detailUrl'',
           coalesce [item raw ''detailUrl'', item raw ''detailUrlPath'',
                     item (home_info raw) ''detailUrl'']),
        (''address'', item info ''address''),
        (''addressStreet'', item info ''addressStreet''),
        (''addressCity'', item info ''addressCity''),
        (''addressState'', item info ''addressState''),
        (''addressZipcode'', item info ''addressZipcode''),
        (''latitude'',
           coalesce [item (item raw ''latLong'') ''latitude'', item (home_info raw) ''latitude'']),
        (''longitude'',
           coalesce [item (item raw ''latLong'') ''longitude'', item (home_info raw) ''longitude'']),
        (''buildingName'',
           coalesce [item raw ''buildingName'', item (home_info raw) ''buildingName'',
                     item raw ''name'']),
        (''contactPhoneNumber'', item raw ''contactPhoneNumber''),
        (''minPrice'',
           coalesce [item raw ''unformattedPrice'', item raw ''price'', item (home_info raw) ''price'']),
        (''maxPrice'',
           coalesce [item raw ''priceReduction'', item raw ''price'', item (home_info raw) ''price'']),
        (''unitTypes'', coalesce [item raw ''unitTypes'', item raw ''bedsBaths'', item raw ''beds'']),
        (''totalUnits'', coalesce [item raw ''totalUnits'', item (home_info raw) ''totalUnits'']),
        (''photoUrls'', JList (map JStr (first_seen (photo_sources raw)))),
        (''isFeaturedListing'', JBool (truthy (item raw ''isFeaturedListing''))),
        (''badgeText'', coalesce [item raw ''badgeText'', item (item raw ''variableData'') ''text''])]"
    by (rule parse_listing_record)
  note a = format_address_items(1-4) [OF info]
  have comps: "item rec ''addressStreet'' = item info ''addressStreet''"
    "item rec ''addressCity'' = item info ''addressCity''"
    "item rec ''addressState'' = item info ''addressState''"
    "item rec ''addressZipcode'' = item info ''addressZipcode''"
    "item rec ''address'' = item info ''address''"
    by (simp_all add: r)
  have "\<forall>(k, cs) \<in> set (source_table raw). item rec k = coalesce cs"
    by (simp add: source_table_def r a del: coalesce.simps) simp
  then show "(k, cs) \<in> set (source_table raw) \<Longrightarrow> item rec k = coalesce cs"
    by blast
  show "item rec ''zpid'' = JStr (py_str B (coalesce (zpid_sources raw @ [JStr []])))"
    by (simp add: r)
  show "item rec ''photoUrls'' = JList (map JStr (first_seen (photo_sources raw)))"
    by (simp add: r)
  show "item rec ''isFeaturedListing'' = JBool (truthy (item raw ''isFeaturedListing''))"
    by (simp add: r)
  show "item rec ''address'' =
           joined_truthy [item rec ''addressStreet'', item rec ''addressCity'',
                          item rec ''addressState'', item rec ''addressZipcode'']"
    unfolding joined_truthy_def Let_def
    by (simp only: comps format_address_items(6) [OF info])
  show "map JStr (strs_of (filter truthy
           [item rec ''addressStreet'', item rec ''addressCity'',
            item rec ''addressState'', item rec ''addressZipcode'']))
         = filter truthy
           [item rec ''addressStreet'', item rec ''addressCity'',
            item rec ''addressState'', item rec ''addressZipcode'']"
    by (simp only: comps format_address_items(5) [OF info])
qed

text \<open>Definitions unfolded when the extractor is evaluated on a concrete listing.\<close>

lemmas eval_defs =
  result_item_def parse_listing_def format_address_def extract_photos_def
  top_level_photos_def home_info_photos_def or_else_def dict_get_def dict_get_default_def
  getitem_def py_in_def list_items_def to_dict_def str_join_def py_str_def
  home_info_def zpid_sources_def photo_sources_def list_strs_def ascii_builtins_def

lemma parse_listing_photos_example:
  "parse_listing ascii_builtins listing_photos = Inr listing_photos_record"
  by (simp add: listing_photos_def listing_photos_record_def eval_defs str_int_def
      digits_of.simps)

lemma parse_listing_empty_example:
  "parse_listing ascii_builtins (JDict []) = Inr empty_listing_record"
  by (simp add: empty_listing_record_def eval_defs)

section \<open>The claims about the record extractor\<close>

text \<open>
  Claim C1, as stated: the record takes, for a field with several candidate source
  locations, the first candidate that is not null. It fails on the listing whose
  top-level unit count is 0: the record takes the 12 of the home info, while the first
  candidate that is not null is the 0.
\<close>

theorem parse_listing_first_non_null_counterexample:
  "result_item (parse_listing ascii_builtins listing_zero_units) ''totalUnits'' = Inr (JInt 12)
   \<and> first_non_null
        [item listing_zero_units ''totalUnits'',
         item (home_info listing_zero_units) ''totalUnits''] = JInt 0"
  by (simp add: listing_zero_units_def eval_defs)

text \<open>
  Claim C1, amended. Whenever a raw listing is normalized, every field of the precedence
  table holds the first candidate, in the order of the table, whose value is truthy (not
  \<^verbatim>\<open>None\<close>, \<^verbatim>\<open>False\<close>, zero or empty), and the last candidate when none is truthy; so a
  truthy value at the higher precedence level wins over any other. The identifier is the
  string form of such a choice among its two sources and the empty string.
\<close>

theorem parse_listing_precedence:
  assumes "parse_listing B raw = Inr rec"
  shows "(\<forall>(k, cs) \<in> set (source_table raw). item rec k = coalesce cs)
         \<and> (\<forall>(k, cs) \<in> set (source_table raw). truthy (hd cs) \<longrightarrow> item rec k = hd cs)
         \<and> item rec ''zpid'' = JStr (py_str B (coalesce (zpid_sources raw @ [JStr []])))"
proof -
  have t: "\<forall>(k, cs) \<in> set (source_table raw). item rec k = coalesce cs"
    using parse_listing_items(1) [OF assms] by blast
  have h: "\<forall>(k, cs) \<in> set (source_table raw). truthy (hd cs) \<longrightarrow> coalesce cs = hd cs"
    by (simp add: source_table_def)
  from t h parse_listing_items(2) [OF assms] show ?thesis
    by fastforce
qed

theorem parse_listing_precedence_witness:
  "parse_listing ascii_builtins listing_photos = Inr listing_photos_record
   \<and> item listing_photos_record ''minPrice'' = JStr ''$1,200''
   \<and> item listing_photos_record ''addressState'' = JStr ''TX''
   \<and> item listing_photos_record ''zpid'' = JStr ''123''"
  using parse_listing_precedence [OF parse_listing_photos_example]
  by (simp add: parse_listing_photos_example listing_photos_record_def)

text \<open>
  Claim C2. Whenever a raw listing is normalized, the \<^verbatim>\<open>photoUrls\<close> of the record is a
  list of strings (never null) without duplicates: the URLs of the merged sources, each
  kept where it is first seen. When the top-level image source is a string, it is the
  first entry.
\<close>

theorem parse_listing_photo_urls:
  assumes "parse_listing B raw = Inr rec"
  shows "item rec ''photoUrls'' = JList (map JStr (first_seen (photo_sources raw)))
         \<and> distinct (first_seen (photo_sources raw))
         \<and> set (first_seen (photo_sources raw)) = set (photo_sources raw)
         \<and> (item raw ''imgSrc'' = JStr s \<longrightarrow>
              first_seen (photo_sources raw) \<noteq> [] \<and> hd (first_seen (photo_sources raw)) = s)"
  using parse_listing_items(3) [OF assms]
  by (simp add: distinct_first_seen set_first_seen) (simp add: photo_sources_def)

theorem parse_listing_photo_urls_witness:
  "parse_listing ascii_builtins listing_photos = Inr listing_photos_record
   \<and> item listing_photos ''imgSrc'' = JStr ''u1''
   \<and> photo_sources listing_photos = [''u1'', ''u2'', ''u1'', ''u3'', ''u2'']
   \<and> item listing_photos_record ''photoUrls'' = JList [JStr ''u1'', JStr ''u2'', JStr ''u3'']
   \<and> hd (first_seen (photo_sources listing_photos)) = ''u1''"
  using parse_listing_photo_urls [OF parse_listing_photos_example, of "''u1''"]
  by (simp add: parse_listing_photos_example listing_photos_record_def)
    (simp add: listing_photos_def photo_sources_def home_info_def list_strs_def)

text \<open>
  Claim C3, as stated: the composite address joins exactly the components that are not
  null. It fails on the listing with an empty street and a city: the street of the
  record is the empty string, which is not null, and the composite address is the city
  alone, while the join of the components that are not null starts with a separator.
\<close>

theorem parse_listing_address_counterexample:
  "result_item (parse_listing ascii_builtins listing_empty_street) ''addressStreet'' = Inr (JStr [])
   \<and> result_item (parse_listing ascii_builtins listing_empty_street) ''addressCity''
       = Inr (JStr ''Austin'')
   \<and> result_item (parse_listing ascii_builtins listing_empty_street) ''addressState'' = Inr JNull
   \<and> result_item (parse_listing ascii_builtins listing_empty_street) ''addressZipcode'' = Inr JNull
   \<and> result_item (parse_listing ascii_builtins listing_empty_street) ''address''
       = Inr (JStr ''Austin'')
   \<and> joined_non_null [JStr [], JStr ''Austin'', JNull, JNull] = JStr '', Austin''"
  by (simp add: listing_empty_street_def eval_defs joined_non_null_def)

text \<open>
  Claim C3, amended. Whenever a raw listing is normalized, the truthy ones among the
  four address components of the record (not null and not empty) are all strings, and
  the composite address is null when there is none and otherwise their concatenation in
  the order street, city, state, zip, separated by a comma and a space. In particular it
  is null, not the empty string, when all four components are null.
\<close>

theorem parse_listing_address:
  assumes "parse_listing B raw = Inr rec"
  shows "item rec ''address'' =
           joined_truthy [item rec ''addressStreet'', item rec ''addressCity'',
                          item rec ''addressState'', item rec ''addressZipcode'']
         \<and> map JStr (strs_of (filter truthy
              [item rec ''addressStreet'', item rec ''addressCity'',
               item rec ''addressState'', item rec ''addressZipcode'']))
            = filter truthy
              [item rec ''addressStreet'', item rec ''addressCity'',
               item rec ''addressState'', item rec ''addressZipcode'']
         \<and> (item rec ''addressStreet'' = JNull \<and> item rec ''addressCity'' = JNull
              \<and> item rec ''addressState'' = JNull \<and> item rec ''addressZipcode'' = JNull
              \<longrightarrow> item rec ''address'' = JNull)"
proof -
  note a = parse_listing_items(5) [OF assms] and b = parse_listing_items(6) [OF assms]
  have "item rec ''addressStreet'' = JNull \<and> item rec ''addressCity'' = JNull
        \<and> item rec ''addressState'' = JNull \<and> item rec ''addressZipcode'' = JNull
        \<longrightarrow> item rec ''address'' = JNull"
    using a by (auto simp: joined_truthy_def)
  with a b show ?thesis
    by blast
qed

theorem parse_listing_address_witness:
  "parse_listing ascii_builtins listing_photos = Inr listing_photos_record
   \<and> item listing_photos_record ''address'' = JStr ''1 Main St, Austin, TX''
   \<and> joined_truthy [JStr ''1 Main St'', JStr ''Austin'', JStr ''TX'', JNull]
       = JStr ''1 Main St, Austin, TX''
   \<and> parse_listing ascii_builtins (JDict []) = Inr empty_listing_record
   \<and> item empty_listing_record ''address'' = JNull"
  using parse_listing_address [OF parse_listing_photos_example]
    parse_listing_address [OF parse_listing_empty_example]
  by (simp add: parse_listing_photos_example parse_listing_empty_example
      listing_photos_record_def empty_listing_record_def joined_truthy_def)

text \<open>
  Claim C5, as stated: a field absent from all its source locations is null in the
  record, the identifier included. It fails on the listing with no key at all: both
  sources of the identifier are absent, and the identifier of the record is the empty
  string.
\<close>

theorem parse_listing_zpid_counterexample:
  "zpid_sources (JDict []) = [JNull, JNull]
   \<and> result_item (parse_listing ascii_builtins (JDict [])) ''zpid'' = Inr (JStr [])"
  by (simp add: eval_defs)

text \<open>
  Claim C5, amended. Whenever a raw listing is normalized: a field of the precedence
  table whose candidates are all absent is null; the composite address is null when the
  four address components are; the identifier is the empty string when both its sources
  are absent; \<^verbatim>\<open>photoUrls\<close> is the empty list when the four photo sources are absent; the
  featured flag is false when its source is absent.
\<close>

theorem parse_listing_absent_fields:
  assumes "parse_listing B raw = Inr rec"
  shows "(\<forall>(k, cs) \<in> set (source_table raw). (\<forall>c \<in> set cs. c = JNull) \<longrightarrow> item rec k = JNull)
         \<and> ((\<forall>k \<in> set [''addressStreet'', ''addressCity'', ''addressState'', ''addressZipcode''].
                item rec k = JNull) \<longrightarrow> item rec ''address'' = JNull)
         \<and> ((\<forall>c \<in> set (zpid_sources raw). c = JNull) \<longrightarrow> item rec ''zpid'' = JStr [])
         \<and> (item raw ''imgSrc'' = JNull \<and> item raw ''photoUrls'' = JNull
              \<and> item (home_info raw) ''photoUrls'' = JNull
              \<and> item (home_info raw) ''photos'' = JNull
              \<longrightarrow> item rec ''photoUrls'' = JList [])
         \<and> (item raw ''isFeaturedListing'' = JNull
              \<longrightarrow> item rec ''isFeaturedListing'' = JBool False)"
proof -
  have n: "(\<forall>c \<in> set cs. c = JNull) \<Longrightarrow> coalesce cs = JNull" for cs
    by (induction cs rule: coalesce.induct) auto
  have t: "\<forall>(k, cs) \<in> set (source_table raw). (\<forall>c \<in> set cs. c = JNull) \<longrightarrow> item rec k = JNull"
    using parse_listing_items(1) [OF assms] n by fastforce
  have a: "(\<forall>k \<in> set [''addressStreet'', ''addressCity'', ''addressState'', ''addressZipcode''].
              item rec k = JNull) \<longrightarrow> item rec ''address'' = JNull"
    using parse_listing_items(5) [OF assms] by (auto simp: joined_truthy_def)
  have z: "(\<forall>c \<in> set (zpid_sources raw). c = JNull) \<longrightarrow> item rec ''zpid'' = JStr []"
    using parse_listing_items(2) [OF assms] by (auto simp: zpid_sources_def py_str_def)
  have p: "item raw ''imgSrc'' = JNull \<and> item raw ''photoUrls'' = JNull
           \<and> item (home_info raw) ''photoUrls'' = JNull
           \<and> item (home_info raw) ''photos'' = JNull
           \<longrightarrow> item rec ''photoUrls'' = JList []"
    using parse_listing_items(3) [OF assms] by (auto simp: photo_sources_def list_strs_def)
  have f: "item raw ''isFeaturedListing'' = JNull
           \<longrightarrow> item rec ''isFeaturedListing'' = JBool False"
    using parse_listing_items(4) [OF assms] by auto
  from t a z p f show ?thesis
    by blast
qed

theorem parse_listing_absent_fields_witness:
  "parse_listing ascii_builtins (JDict []) = Inr empty_listing_record
   \<and> item empty_listing_record ''totalUnits'' = JNull
   \<and> item empty_listing_record ''address'' = JNull
   \<and> item empty_listing_record ''zpid'' = JStr []
   \<and> item empty_listing_record ''photoUrls'' = JList []
   \<and> item empty_listing_record ''isFeaturedListing'' = JBool False"
  using parse_listing_absent_fields [OF parse_listing_empty_example]
  by (simp add: parse_listing_empty_example empty_listing_record_def)

section \<open>The claims about the walk down the state tree\<close>

lemma parse_search_results_no_state:
  "extract_json_state L html = JNull \<Longrightarrow> parse_search_results B L html = Inr []"
  by (simp add: parse_search_results_def)

lemma extract_json_state_not_located:
  assumes "find_next_data L html = None"
    and "search_props L (get_text L html) = None"
  shows "extract_json_state L html = JNull"
  using assms by (simp add: extract_json_state_def fallback_state_def)

lemma iter_list_results_catches:
  "iter_list_results state \<noteq> Inl KeyError \<and> iter_list_results state \<noteq> Inl TypeError"
  by (auto simp: iter_list_results_def split: sum.splits py_error.splits)

lemma iter_list_results_example:
  "iter_list_results (search_state (JList raws)) = Inr raws"
  by (simp add: iter_list_results_def search_state_def getitem_def or_else_def dict_get_def
      dict_get_default_def py_iter_def)

lemma search_state_not_null: "search_state list_results \<noteq> JNull"
  by (simp add: search_state_def)

text \<open>
  Claim C4. A document in which no state is located gives the empty list, but a wrong
  type in the state tree can escape as an exception: in
  \<^verbatim>\<open>{"props": {"pageProps": []}}\<close> the page-level props are a list, the call of its
  \<^verbatim>\<open>get\<close> raises \<^verbatim>\<open>AttributeError\<close>, which the handler of \<^verbatim>\<open>_iter_list_results\<close>
  (for \<^verbatim>\<open>KeyError\<close> and \<^verbatim>\<open>TypeError\<close>) does not catch. So does a listing whose
  \<^verbatim>\<open>hdpData\<close> is null, in the loop of \<^verbatim>\<open>parse_search_results\<close>, which no handler
  covers.
\<close>

theorem parse_search_results_attribute_error:
  "parse_search_results ascii_builtins (no_state_lib) ''<html></html>'' = Inr []
   \<and> parse_search_results ascii_builtins
        (next_data_lib ''props'' page_props_list) ''<html></html>'' = Inl AttributeError
   \<and> parse_search_results ascii_builtins
        (next_data_lib ''props'' (search_state (JList [JDict [(''hdpData'', JNull)]])))
        ''<html></html>'' = Inl AttributeError"
proof -
  have "parse_search_results ascii_builtins (no_state_lib) ''<html></html>'' = Inr []"
    by (simp add: parse_search_results_no_state extract_json_state_not_located no_state_lib_def)
  moreover have "parse_search_results ascii_builtins
        (next_data_lib ''props'' page_props_list) ''<html></html>'' = Inl AttributeError"
    by (simp add: parse_search_results_def extract_json_state_def next_data_lib_def
        page_props_list_def iter_list_results_def getitem_def or_else_def dict_get_def
        dict_get_default_def)
  moreover have "parse_search_results ascii_builtins
        (next_data_lib ''props'' (search_state (JList [JDict [(''hdpData'', JNull)]])))
        ''<html></html>'' = Inl AttributeError"
    by (simp add: parse_search_results_def extract_json_state_def next_data_lib_def
        iter_list_results_example search_state_not_null parse_listing_def or_else_def
        dict_get_def dict_get_default_def)
  ultimately show ?thesis by simp
qed

section \<open>The claim about the home-type filter\<close>

lemma substring_in_iff: "substring_in needle haystack \<longleftrightarrow> (\<exists>p s. haystack = p @ needle @ s)"
proof (induction haystack)
  case Nil
  then show ?case by auto
next
  case (Cons c h)
  show ?case
  proof
    assume "substring_in needle (c # h)"
    then consider "take (length needle) (c # h) = needle" | "substring_in needle h"
      by auto
    then show "\<exists>p s. c # h = p @ needle @ s"
    proof cases
      case 1
      then have "c # h = [] @ needle @ drop (length needle) (c # h)"
        by (metis append_Nil append_take_drop_id)
      then show ?thesis by blast
    next
      case 2
      with Cons.IH obtain p s where "h = p @ needle @ s" by blast
      then have "c # h = (c # p) @ needle @ s" by simp
      then show ?thesis by blast
    qed
  next
    assume "\<exists>p s. c # h = p @ needle @ s"
    then obtain p s where e: "c # h = p @ needle @ s" by blast
    show "substring_in needle (c # h)"
    proof (cases p)
      case Nil
      with e have "take (length needle) (c # h) = needle" by simp
      then show ?thesis by simp
    next
      case (Cons d p')
      with e have "h = p' @ needle @ s" by simp
      with Cons.IH show ?thesis by auto
    qed
  qed
qed

lemma parse_listing_is_dict: "parse_listing B raw = Inr r \<Longrightarrow> \<exists>kvs. r = JDict kvs"
  by (erule parse_listing_record) simp

lemma parse_listings_dicts:
  "parse_listings B raws = Inr rs \<Longrightarrow> \<forall>r \<in> set rs. \<exists>kvs. r = JDict kvs"
proof (induction raws arbitrary: rs)
  case Nil
  then show ?case by simp
next
  case (Cons raw raws)
  from Cons.prems obtain r rs' where
    "parse_listing B raw = Inr r" "parse_listings B raws = Inr rs'" "rs = r # rs'"
    by (auto elim!: bindE)
  with Cons.IH parse_listing_is_dict show ?case by auto
qed

lemma parse_search_results_dicts:
  assumes "parse_search_results B L html = Inr records"
  shows "\<forall>r \<in> set records. \<exists>kvs. r = JDict kvs"
proof (cases "extract_json_state L html = JNull")
  case True
  with assms show ?thesis by (simp add: parse_search_results_def)
next
  case False
  with assms obtain raws where "parse_listings B raws = Inr records"
    by (auto simp: parse_search_results_def elim!: bindE)
  then show ?thesis by (rule parse_listings_dicts)
qed

lemma filter_home_types_dicts:
  assumes "\<forall>r \<in> set records. \<exists>kvs. r = JDict kvs"
  shows "filter_home_types B normalized records =
           Inr (filter (\<lambda>r. \<exists>ht \<in> normalized.
                   substring_in ht (str_lower B (py_str B (coalesce [item r ''unitTypes'', JStr []]))))
                 records)"
  using assms
proof (induction records)
  case Nil
  then show ?case by simp
next
  case (Cons r records)
  then obtain kvs where r: "r = JDict kvs" by auto
  have "or_else (dict_get r ''unitTypes'') (Inr (JStr []))
        = Inr (coalesce [item r ''unitTypes'', JStr []])"
    by (simp add: r or_else_def)
  with Cons show ?case
    by (simp add: Let_def)
qed

text \<open>
  Claim C10. When the page is fetched and parsed: with no home types (absent, \<^verbatim>\<open>None\<close>
  or the empty list) every parsed record is returned; with home types, exactly the
  records are kept, in order, for which some lower-cased home type is a substring of the
  lower-cased string form of the record's unit types (the empty string when they are
  falsy).
\<close>

theorem fetch_city_listings_filter:
  assumes "fetch (build_search_url B city listing_type page language) language = Inr html"
    and "parse_search_results B L html = Inr records"
  shows "fetch_city_listings B L fetch city listing_type None page language = Inr records
         \<and> fetch_city_listings B L fetch city listing_type (Some []) page language = Inr records
         \<and> (hts \<noteq> [] \<longrightarrow>
              fetch_city_listings B L fetch city listing_type (Some hts) page language =
                Inr (filter
                  (\<lambda>r. \<exists>ht \<in> set hts. \<exists>p s.
                     str_lower B (py_str B (coalesce [item r ''unitTypes'', JStr []]))
                       = p @ str_lower B ht @ s)
                  records))"
proof -
  have d: "\<forall>r \<in> set records. \<exists>kvs. r = JDict kvs"
    using assms(2) by (rule parse_search_results_dicts)
  have "fetch_city_listings B L fetch city listing_type (Some hts) page language =
          Inr (filter
            (\<lambda>r. \<exists>ht \<in> set hts. \<exists>p s.
               str_lower B (py_str B (coalesce [item r ''unitTypes'', JStr []]))
                 = p @ str_lower B ht @ s)
            records)" if "hts \<noteq> []"
  proof (cases "records = []")
    case True
    with assms show ?thesis
      by (simp add: fetch_city_listings_def)
  next
    case False
    with assms that show ?thesis
      by (simp add: fetch_city_listings_def filter_home_types_dicts [OF d] substring_in_iff)
  qed
  moreover have "fetch_city_listings B L fetch city listing_type None page language = Inr records"
    using assms by (simp add: fetch_city_listings_def)
  moreover have "fetch_city_listings B L fetch city listing_type (Some []) page language = Inr records"
    using assms by (simp add: fetch_city_listings_def)
  ultimately show ?thesis by blast
qed

lemma two_listings_example:
  "parse_search_results ascii_builtins (next_data_lib ''state'' (search_state two_listings)) ''page''
     = Inr [record_apartment, record_three_beds]"
  by (simp add: parse_search_results_def extract_json_state_def next_data_lib_def two_listings_def
      iter_list_results_example search_state_not_null record_apartment_def
      record_three_beds_def eval_defs)

theorem fetch_city_listings_filter_witness:
  "fetch_page ''page'' (build_search_url ascii_builtins ''Austin, TX'' ''for_rent'' 1 ''en-US'') ''en-US''
     = Inr ''page''
   \<and> parse_search_results ascii_builtins (next_data_lib ''state'' (search_state two_listings)) ''page''
     = Inr [record_apartment, record_three_beds]
   \<and> [''Condo'', ''APART''] \<noteq> []
   \<and> fetch_city_listings ascii_builtins (next_data_lib ''state'' (search_state two_listings))
        (fetch_page ''page'') ''Austin, TX'' ''for_rent'' (Some [''Condo'', ''APART'']) 1 ''en-US''
     = Inr [record_apartment]
   \<and> fetch_city_listings ascii_builtins (next_data_lib ''state'' (search_state two_listings))
        (fetch_page ''page'') ''Austin, TX'' ''for_rent'' (Some []) 1 ''en-US''
     = Inr [record_apartment, record_three_beds]"
proof -
  have f: "fetch_page ''page'' (build_search_url ascii_builtins ''Austin, TX'' ''for_rent'' 1 ''en-US'')
      ''en-US'' = Inr ''page''"
    by (simp add: fetch_page_def)
  have a: "(\<exists>ht \<in> set [''Condo'', ''APART'']. \<exists>p s.
        str_lower ascii_builtins (py_str ascii_builtins (coalesce [item record_apartment ''unitTypes'', JStr []]))
          = p @ str_lower ascii_builtins ht @ s)"
    by (simp add: substring_in_iff [symmetric] record_apartment_def ascii_builtins_def
        ascii_lower_def py_str_def)
  have b: "\<not> (\<exists>ht \<in> set [''Condo'', ''APART'']. \<exists>p s.
        str_lower ascii_builtins (py_str ascii_builtins (coalesce [item record_three_beds ''unitTypes'', JStr []]))
          = p @ str_lower ascii_builtins ht @ s)"
    by (simp add: substring_in_iff [symmetric] record_three_beds_def ascii_builtins_def
        ascii_lower_def py_str_def str_int_def digits_of.simps)
  show ?thesis
    using fetch_city_listings_filter
      [where fetch = "fetch_page ''page''" and B = ascii_builtins and city = "''Austin, TX''"
        and listing_type = "''for_rent''" and page = 1 and language = "''en-US''"
        and hts = "[''Condo'', ''APART'']", OF f two_listings_example] a b
    by (simp add: f two_listings_example)
qed

section \<open>The claims about the exporters\<close>

lemma keys_loop_eq:
  "keys_loop keys seen fieldnames =
     (seen \<union> set keys, fieldnames @ filter (\<lambda>k. k \<notin> seen) (first_seen keys))"
proof (induction keys arbitrary: seen fieldnames)
  case Nil
  then show ?case by simp
next
  case (Cons key keys)
  show ?case
  proof (cases "key \<in> seen")
    case True
    then have "filter (\<lambda>y. y \<noteq> key \<and> y \<notin> seen) (first_seen keys)
        = filter (\<lambda>y. y \<notin> seen) (first_seen keys)"
      by (intro filter_cong) auto
    with True show ?thesis
      by (auto simp: Cons.IH)
  next
    case False
    have "filter (\<lambda>y. y \<noteq> key \<and> y \<notin> seen) (first_seen keys)
        = filter (\<lambda>y. y \<notin> insert key seen) (first_seen keys)"
      by (intro filter_cong) auto
    with False show ?thesis
      by (simp add: Cons.IH)
  qed
qed

lemma first_seen_append:
  "first_seen (xs @ ys) = first_seen xs @ filter (\<lambda>y. y \<notin> set xs) (first_seen ys)"
proof (induction xs)
  case Nil
  then show ?case by simp
next
  case (Cons x xs)
  then show ?case
    by (auto intro!: filter_cong)
qed

lemma fieldnames_loop_eq:
  "fieldnames_loop (map JDict ds) (set fieldnames) fieldnames =
     Inr (fieldnames @ filter (\<lambda>k. k \<notin> set fieldnames) (key_union ds))"
proof (induction ds arbitrary: fieldnames)
  case Nil
  then show ?case by (simp add: key_union_def)
next
  case (Cons d ds)
  let ?ks = "map fst d"
  let ?new = "filter (\<lambda>k. k \<notin> set fieldnames) (first_seen ?ks)"
  have "set fieldnames \<union> set ?ks = set (fieldnames @ ?new)"
    by (auto simp: set_first_seen)
  then have step: "keys_loop ?ks (set fieldnames) fieldnames
      = (set (fieldnames @ ?new), fieldnames @ ?new)"
    by (simp only: keys_loop_eq)
  have "fieldnames_loop (map JDict (d # ds)) (set fieldnames) fieldnames
        = fieldnames_loop (map JDict ds) (set (fieldnames @ ?new)) (fieldnames @ ?new)"
    by (simp add: dict_keys_def dict_items_def step)
  also have "\<dots> = Inr ((fieldnames @ ?new)
      @ filter (\<lambda>k. k \<notin> set (fieldnames @ ?new)) (key_union ds))"
    by (rule Cons.IH)
  also have "filter (\<lambda>k. k \<notin> set (fieldnames @ ?new)) (key_union ds)
      = filter (\<lambda>k. k \<notin> set fieldnames) (filter (\<lambda>k. k \<notin> set ?ks) (key_union ds))"
    by (auto simp: set_first_seen intro!: filter_cong)
  finally show ?case
    by (simp add: key_union_def first_seen_append)
qed

lemma collect_fieldnames_eq: "collect_fieldnames (map JDict ds) = Inr (key_union ds)"
  using fieldnames_loop_eq [of ds "[]"] by (simp add: collect_fieldnames_def)

lemma map_of_flat:
  "map_of (map (\<lambda>kv. (fst kv, f (snd kv))) kvs) k = map_option f (map_of kvs k)"
  by (induction kvs) auto

lemma flat_cell:
  "(case map_option (flat_value B) (map_of d key) of None \<Rightarrow> JStr [] | Some v \<Rightarrow> v) = csv_cell B d key"
  by (auto simp: csv_cell_def flat_value_def split: option.splits json.splits)

lemma write_rows_eq:
  assumes "\<forall>d \<in> set ds. set (map fst d) \<subseteq> set fieldnames"
  shows "write_rows B fieldnames (map JDict ds) = Inr (map (\<lambda>d. map (csv_cell B d) fieldnames) ds)"
  using assms
proof (induction ds)
  case Nil
  then show ?case by simp
next
  case (Cons d ds)
  then have k: "\<not> (\<exists>k \<in> set (map fst (map (\<lambda>kv. (fst kv, flat_value B (snd kv))) d)).
      k \<notin> set fieldnames)"
    by (auto simp: comp_def)
  from Cons have "write_rows B fieldnames (map JDict ds)
      = Inr (map (\<lambda>d. map (csv_cell B d) fieldnames) ds)"
    by simp
  moreover have "(case map_option (flat_value B) (map_of d key) of
        None \<Rightarrow> JStr [] | Some v \<Rightarrow> v) = csv_cell B d key" for key
    by (rule flat_cell)
  ultimately show ?case
    using k by (simp add: dict_items_def dict_to_list_def Let_def map_of_flat del: set_map)
qed

lemma keys_in_union: "d \<in> set ds \<Longrightarrow> set (map fst d) \<subseteq> set (key_union ds)"
  by (auto simp: key_union_def set_first_seen)

lemma export_to_csv_eq:
  assumes "ds \<noteq> []"
  shows "export_to_csv B (map JDict ds) =
           Inr (map JStr (key_union ds) # map (\<lambda>d. map (csv_cell B d) (key_union ds)) ds)"
proof -
  have "\<forall>d \<in> set ds. set (map fst d) \<subseteq> set (key_union ds)"
    using keys_in_union by blast
  then have "write_rows B (key_union ds) (map JDict ds)
      = Inr (map (\<lambda>d. map (csv_cell B d) (key_union ds)) ds)"
    by (rule write_rows_eq)
  with assms show ?thesis
    by (simp add: export_to_csv_def collect_fieldnames_eq)
qed

text \<open>
  Claim C9, as stated: the CSV export emits a header row and one row per record. It
  fails on the empty record list, for which nothing is written, not even a header row.
\<close>

theorem export_to_csv_empty_counterexample:
  "export_to_csv ascii_builtins [] = Inr []"
  by (simp add: export_to_csv_def)

text \<open>
  Claim C9, amended. For a record list that is not empty, the CSV export writes a header
  row, the union of the keys of all records in first-seen order, and then one row per
  record, in order, whose cell under a column is the empty string when the record lacks
  the key or holds null under it, the items of a list joined with a bar, and the value
  itself otherwise. The record set \<^verbatim>\<open>[{"a": "1", "b": ["x", "y"]}]\<close> gives the header
  \<open>a, b\<close> and the row \<open>1, x|y\<close>. For the empty record list no row is written.
\<close>

theorem export_to_csv_rows:
  "export_to_csv B [] = Inr []
   \<and> (ds \<noteq> [] \<longrightarrow>
      export_to_csv B (map JDict ds) =
        Inr (map JStr (key_union ds) # map (\<lambda>d. map (csv_cell B d) (key_union ds)) ds))
   \<and> export_to_csv B [JDict record_a_b] = Inr [[JStr ''a'', JStr ''b''], [JStr ''1'', JStr ''x|y'']]"
proof -
  have "export_to_csv B (map JDict [record_a_b])
      = Inr [[JStr ''a'', JStr ''b''], [JStr ''1'', JStr ''x|y'']]"
    by (subst export_to_csv_eq)
      (simp_all add: key_union_def record_a_b_def csv_cell_def py_str_def)
  moreover have "export_to_csv B [] = Inr []"
    by (simp add: export_to_csv_def)
  ultimately show ?thesis
    by (simp add: export_to_csv_eq)
qed

theorem export_to_csv_rows_witness:
  "[record_a_b, [(''c'', JNull), (''a'', JInt 2)]] \<noteq> []
   \<and> export_to_csv ascii_builtins (map JDict [record_a_b, [(''c'', JNull), (''a'', JInt 2)]]) =
       Inr [[JStr ''a'', JStr ''b'', JStr ''c''],
            [JStr ''1'', JStr ''x|y'', JStr []],
            [JInt 2, JStr [], JStr []]]"
  using export_to_csv_rows
    [where ds = "[record_a_b, [(''c'', JNull), (''a'', JInt 2)]]" and B = ascii_builtins]
  by (simp add: key_union_def record_a_b_def csv_cell_def py_str_def)

lemma serialize_loop_eq: "serialize_loop records serialized = serialized @ records"
  by (induction records arbitrary: serialized) auto

lemma export_json_eq:
  "export_json records metadata =
     JsonDump (JDict [(''metadata'', metadata), (''results'', JList records)])"
  by (simp add: export_json_def serialize_for_json_def serialize_loop_eq)

text \<open>
  Claim C8, as stated: for every record list and metadata the exported object has a
  \<^verbatim>\<open>recordCount\<close> in its metadata, equal to the number of results. It fails when
  \<^verbatim>\<open>export_records\<close> is given one record and no metadata: the metadata of the exported
  object holds the time stamp only.
\<close>

theorem export_records_record_count_counterexample:
  "export_records ascii_builtins no_text [JDict []] ''json'' JNull ''2024-01-01T00:00:00'' =
     Inr (JsonDump (JDict
       [(''metadata'', JDict [(''generatedAt'', JStr ''2024-01-01T00:00:00Z'')]),
        (''results'', JList [JDict []])]))"
  by (simp add: export_records_def export_json_eq setdefault_def ascii_builtins_def
      ascii_lower_def)

text \<open>
  Claim C8, amended. The JSON export writes an object with the members \<^verbatim>\<open>metadata\<close> and
  \<^verbatim>\<open>results\<close>: the results are the records, and the metadata is the dictionary it is
  given, with \<^verbatim>\<open>generatedAt\<close> added when it has none. The export step of \<^verbatim>\<open>run\<close> gives
  it a metadata whose \<^verbatim>\<open>recordCount\<close> is the number of records, so that there the
  \<^verbatim>\<open>recordCount\<close> of the exported object is the length of its results.
\<close>

theorem run_export_json_record_count:
  assumes "str_lower B fmt = ''json''"
  shows "export_records B render records fmt (JDict kvs) now =
           Inr (JsonDump (JDict
             [(''metadata'',
                 JDict (if ''generatedAt'' \<in> set (map fst kvs) then kvs
                        else kvs @ [(''generatedAt'', JStr (now @ ''Z''))])),
              (''results'', JList records)]))
         \<and> (fmt \<noteq> ''csv'' \<longrightarrow>
              run_export B render cities listing_types records fmt now' now =
                Inr (JsonDump (JDict
                  [(''metadata'', JDict
                      [(''generatedAt'', JStr (now' @ ''Z'')),
                       (''cityCount'', JInt (int (length cities))),
                       (''listingTypes'', JList (map JStr listing_types)),
                       (''recordCount'', JInt (int (length records)))]),
                   (''results'', JList records)])))"
  using assms
  by (cases kvs) (simp_all add: export_records_def run_export_def export_json_eq setdefault_def)

theorem run_export_json_record_count_witness:
  "str_lower ascii_builtins ''JSON'' = ''json'' \<and> ''JSON'' \<noteq> ''csv''
   \<and> run_export ascii_builtins no_text [''Austin, TX''] [''for_rent'']
        [JDict [], JDict [], JDict []] ''JSON'' ''2024-01-01T00:00:00'' ''2024-01-01T00:00:01'' =
       Inr (JsonDump (JDict
         [(''metadata'', JDict
             [(''generatedAt'', JStr ''2024-01-01T00:00:00Z''),
              (''cityCount'', JInt 1),
              (''listingTypes'', JList [JStr ''for_rent'']),
              (''recordCount'', JInt 3)]),
          (''results'', JList [JDict [], JDict [], JDict []])]))"
proof -
  have l: "str_lower ascii_builtins ''JSON'' = ''json''"
    by (simp add: ascii_builtins_def ascii_lower_def)
  show ?thesis
    using run_export_json_record_count [OF l, of no_text "[JDict [], JDict [], JDict []]"
        "[]" "''2024-01-01T00:00:01''" "[''Austin, TX'']" "[''for_rent'']"
        "''2024-01-01T00:00:00''"]
    by (simp add: l)
qed


section \<open>The records of a page\<close>

text \<open>The records of a page are the records of its raw listings, one for each and in
  order, when every listing is normalized; the first listing that raises fails the page.\<close>

lemma parse_listings_all2:
  "parse_listings B raws = Inr rs \<longleftrightarrow> list_all2 (\<lambda>raw r. parse_listing B raw = Inr r) raws rs"
proof (induction raws arbitrary: rs)
  case Nil
  then show ?case by auto
next
  case (Cons raw raws)
  show ?case
    by (auto simp: list_all2_Cons1 Cons.IH [symmetric] elim!: bindE)
qed

lemma parse_search_results_records:
  assumes "extract_json_state L html = state" and "state \<noteq> JNull"
    and "iter_list_results state = Inr raws"
  shows "parse_search_results B L html = Inr rs
         \<longleftrightarrow> list_all2 (\<lambda>raw r. parse_listing B raw = Inr r) raws rs"
  using assms by (simp add: parse_search_results_def parse_listings_all2)

end
